theory Spec2Isabelle
  imports Main "HOL-Library.AList"
begin

section \<open>Data model of the session coordination core (app.py)\<close>

text \<open>
  An entry of \<^verbatim>\<open>active_sessions[session_id]['users']\<close>: the dictionary built in
  \<^verbatim>\<open>handle_join_session\<close> and \<^verbatim>\<open>handle_join_approval_response\<close>.
  \<^verbatim>\<open>sessionId\<close> is the client-held stable identity (\<^verbatim>\<open>data.get('sessionId')\<close>, so it
  may be \<^verbatim>\<open>None\<close>); \<^verbatim>\<open>sid\<close> is the transport connection id (\<^verbatim>\<open>request.sid\<close>).
\<close>

record user =
  sid :: string
  username :: string
  color :: string
  current_file :: "string option"
  is_anonymous :: bool
  sessionId :: "string option"
  is_admin :: bool

text \<open>
  An entry of \<^verbatim>\<open>pending_approvals\<close>. The source stores two shapes of dictionary, told
  apart by the key \<^verbatim>\<open>'type'\<close>: \<^verbatim>\<open>'save'\<close> (built in \<^verbatim>\<open>save_file\<close>, with path,
  content and user descriptor) and \<^verbatim>\<open>'join'\<close> (built in \<^verbatim>\<open>handle_join_session\<close>,
  with username, anonymity flag, stable identity and connection id).
\<close>

datatype approval =
    Save string string string string
  | Join string string bool "string option" string

fun a_id :: "approval \<Rightarrow> string" where
  "a_id (Save i p c u) = i"
| "a_id (Join i n an si s) = i"

fun a_type :: "approval \<Rightarrow> string" where
  "a_type (Save i p c u) = ''save''"
| "a_type (Join i n an si s) = ''join''"

text \<open>\<^verbatim>\<open>a.get('sessionId')\<close> and \<^verbatim>\<open>a.get('sid')\<close>: \<^verbatim>\<open>None\<close> on a dictionary without the key.\<close>

fun get_sessionId :: "approval \<Rightarrow> string option" where
  "get_sessionId (Save i p c u) = None"
| "get_sessionId (Join i n an si s) = si"

fun get_sid :: "approval \<Rightarrow> string option" where
  "get_sid (Save i p c u) = None"
| "get_sid (Join i n an si s) = Some s"

text \<open>\<^verbatim>\<open>approval['sid'] = request.sid\<close>: only ever executed on a \<^verbatim>\<open>'join'\<close> entry.\<close>

fun set_sid :: "string \<Rightarrow> approval \<Rightarrow> approval" where
  "set_sid s' (Join i n an si s) = Join i n an si s'"
| "set_sid s' (Save i p c u) = Save i p c u"

record session_data =
  users :: "user list"
  pending_approvals :: "approval list"

definition new_session :: session_data where
  "new_session = \<lparr>users = [], pending_approvals = []\<rparr>"

text \<open>The columns of the \<^verbatim>\<open>Project\<close> row that the coordination core reads.\<close>

record project =
  admin_id :: int
  workspace_path :: string
  max_users :: int
  active :: bool

text \<open>
  Outbound Socket.IO events, one constructor per event name emitted by the source, with the
  payload fields in the order of the source's dictionaries.
\<close>

datatype message =
    Error string
  | Waiting_approval
  | User_connected user
  | Session_state "user list"
  | User_joined string string user "user list"
  | Join_approval_request string string
  | Join_approved user
  | Join_rejected
  | User_left string string
  | Kicked
  | Session_closed
  | Cursor_update string string string string string
  | Content_update string string string int
  | User_file_change string string
  | Chat_message string string string string
  | Approval_request string string string
  | Approval_result string bool
  | File_saved string string string nat

text \<open>
  One call of \<^verbatim>\<open>emit\<close>: the event, the room it is addressed to, and the connection that
  is skipped (\<^verbatim>\<open>include_self=False\<close> skips \<^verbatim>\<open>request.sid\<close>). An \<^verbatim>\<open>emit\<close> without
  \<^verbatim>\<open>room=\<close> inside a Socket.IO handler is addressed to \<^verbatim>\<open>request.sid\<close>, which is the
  name of the sender's own room.
\<close>

record emission =
  msg :: message
  room :: string
  skip_sid :: "string option"

definition emit :: "message \<Rightarrow> string \<Rightarrow> emission" where
  "emit m r = \<lparr>msg = m, room = r, skip_sid = None\<rparr>"

definition emit_others :: "message \<Rightarrow> string \<Rightarrow> string \<Rightarrow> emission" where
  "emit_others m r self = \<lparr>msg = m, room = r, skip_sid = Some self\<rparr>"

text \<open>
  Delivery as Flask-SocketIO does it: an emission reaches the connections that are members
  of the addressed room (every connection is the one member of the room named by its own
  id), except the skipped one.
\<close>

definition delivered :: "(string \<times> string) list \<Rightarrow> emission \<Rightarrow> string \<Rightarrow> bool" where
  "delivered rms e c \<longleftrightarrow>
     (room e = c \<or> (room e, c) \<in> set rms) \<and> skip_sid e \<noteq> Some c"

text \<open>
  The state the handlers read and write: the global \<^verbatim>\<open>active_sessions\<close> dictionary (in
  insertion order, which \<^verbatim>\<open>handle_disconnect\<close> iterates), the \<^verbatim>\<open>Project\<close> table keyed by
  \<^verbatim>\<open>session_id\<close>, the files of the workspaces, the Socket.IO room memberships, and what
  the operating system answers: \<^verbatim>\<open>write_error p\<close> is \<^verbatim>\<open>None\<close> when opening and writing
  \<^verbatim>\<open>p\<close> succeeds and the text of the exception otherwise, \<^verbatim>\<open>mtime p\<close> is what
  \<^verbatim>\<open>os.path.getmtime\<close> returns, \<^verbatim>\<open>cwd\<close> is the working directory.
\<close>

record world =
  active_sessions :: "(string \<times> session_data) list"
  projects :: "string \<rightharpoonup> project"
  files :: "string \<rightharpoonup> string"
  rooms :: "(string \<times> string) list"
  write_error :: "string \<Rightarrow> string option"
  mtime :: "string \<Rightarrow> nat"
  cwd :: string

datatype error = AttributeError | KeyError | OSError string

text \<open>The answer of an HTTP route: status code and the text of its JSON body.\<close>

datatype reply = Reply nat string

section \<open>Helper functions\<close>

subsection \<open>\<^verbatim>\<open>os.path\<close> on POSIX, as far as \<^verbatim>\<open>is_safe_path\<close> uses it\<close>

definition isabs :: "string \<Rightarrow> bool" where
  "isabs p = (case p of [] \<Rightarrow> False | c # cs \<Rightarrow> c = CHR ''/'')"

definition path_join :: "string \<Rightarrow> string \<Rightarrow> string" where
  "path_join a b =
     (if isabs b then b
      else if a = [] \<or> last a = CHR ''/'' then a @ b
      else a @ ''/'' @ b)"

fun split_sep :: "string \<Rightarrow> string list" where
  "split_sep [] = [[]]"
| "split_sep (c # cs) =
     (if c = CHR ''/'' then [] # split_sep cs
      else (case split_sep cs of [] \<Rightarrow> [[c]] | w # ws \<Rightarrow> (c # w) # ws))"

fun join_sep :: "string list \<Rightarrow> string" where
  "join_sep [] = []"
| "join_sep [w] = w"
| "join_sep (w # ws) = w @ ''/'' @ join_sep ws"

text \<open>The loop of \<^verbatim>\<open>normpath\<close> over the components; \<open>acc\<close> is \<^verbatim>\<open>new_comps\<close>.\<close>

fun norm_comps :: "bool \<Rightarrow> string list \<Rightarrow> string list \<Rightarrow> string list" where
  "norm_comps initial_slashes acc [] = acc"
| "norm_comps initial_slashes acc (part # comps) =
     (if part = [] \<or> part = ''.'' then norm_comps initial_slashes acc comps
      else if part \<noteq> ''..'' \<or> (\<not> initial_slashes \<and> acc = [])
                \<or> (acc \<noteq> [] \<and> last acc = ''..'')
        then norm_comps initial_slashes (acc @ [part]) comps
      else if acc \<noteq> [] then norm_comps initial_slashes (butlast acc) comps
      else norm_comps initial_slashes acc comps)"

definition normpath :: "string \<Rightarrow> string" where
  "normpath path =
     (if path = [] then ''.''
      else
        let initial_slashes =
              (if take 1 path = ''/'' then
                 (if take 2 path = ''//'' \<and> take 3 path \<noteq> ''///'' then 2 else 1)
               else (0::nat));
            comps = norm_comps (initial_slashes \<noteq> 0) [] (split_sep path);
            p = replicate initial_slashes (CHR ''/'') @ join_sep comps
        in if p = [] then ''.'' else p)"

definition abspath :: "string \<Rightarrow> string \<Rightarrow> string" where
  "abspath wd path = normpath (if isabs path then path else path_join wd path)"

text \<open>
  \<^verbatim>\<open>os.path.commonprefix\<close> of a list of two strings: the longest string that is a prefix
  of both, character by character.
\<close>

fun commonprefix :: "string \<Rightarrow> string \<Rightarrow> string" where
  "commonprefix (x # xs) (y # ys) = (if x = y then x # commonprefix xs ys else [])"
| "commonprefix xs ys = []"

definition is_safe_path :: "string \<Rightarrow> string \<Rightarrow> string \<Rightarrow> bool" where
  "is_safe_path wd workspace relative_path =
     (let full_path = abspath wd (path_join workspace relative_path)
      in commonprefix full_path workspace = workspace)"

definition user_colors :: "string list" where
  "user_colors = [''#FF6B6B'', ''#4ECDC4'', ''#45B7D1'', ''#FFA07A'',
                  ''#98D8C8'', ''#F7DC6F'', ''#BB8FCE'', ''#85C1E2'']"

text \<open>\<^verbatim>\<open>random.choice(user_colors)\<close>; \<open>draw\<close> is the random number drawn.\<close>

definition assign_color :: "nat \<Rightarrow> string" where
  "assign_color draw = user_colors ! (draw mod 8)"

subsection \<open>Dictionary and list idioms of the source\<close>

text \<open>\<^verbatim>\<open>active_sessions[session_id]\<close> once the key is known to be present or just created.\<close>

definition session_of :: "(string \<times> session_data) list \<Rightarrow> string \<Rightarrow> session_data" where
  "session_of ss k = (case map_of ss k of None \<Rightarrow> new_session | Some d \<Rightarrow> d)"

text \<open>
  \<^verbatim>\<open>if session_id not in active_sessions: active_sessions[session_id] = {...}\<close>: a new key
  goes to the end of the dictionary.
\<close>

definition ensure_session :: "string \<Rightarrow> (string \<times> session_data) list \<Rightarrow> (string \<times> session_data) list" where
  "ensure_session k ss = (case map_of ss k of None \<Rightarrow> ss @ [(k, new_session)] | Some d \<Rightarrow> ss)"

text \<open>Mutating the first element that satisfies \<open>P\<close> in place (a loop with \<^verbatim>\<open>break\<close>).\<close>

fun update_first :: "('a \<Rightarrow> bool) \<Rightarrow> ('a \<Rightarrow> 'a) \<Rightarrow> 'a list \<Rightarrow> 'a list" where
  "update_first P f [] = []"
| "update_first P f (x # xs) = (if P x then f x # xs else x # update_first P f xs)"

text \<open>\<^verbatim>\<open>join_room\<close>, \<^verbatim>\<open>enter_room\<close>, \<^verbatim>\<open>leave_room\<close>.\<close>

definition join_room :: "string \<Rightarrow> string \<Rightarrow> (string \<times> string) list \<Rightarrow> (string \<times> string) list" where
  "join_room r c rms = List.insert (r, c) rms"

definition leave_room :: "string \<Rightarrow> string \<Rightarrow> (string \<times> string) list \<Rightarrow> (string \<times> string) list" where
  "leave_room r c rms = removeAll (r, c) rms"

definition admin_room :: "string \<Rightarrow> string" where
  "admin_room session_id = session_id @ ''_admin''"

definition is_user_admin :: "int option \<Rightarrow> project \<Rightarrow> bool" where
  "is_user_admin uid p = (case uid of None \<Rightarrow> False | Some u \<Rightarrow> u = admin_id p)"

section \<open>HTTP routes\<close>

text \<open>
  \<^verbatim>\<open>save_file\<close> (\<^verbatim>\<open>POST /api/session/<session_id>/files/save\<close>). \<open>uid\<close> is
  \<^verbatim>\<open>session['user_id']\<close> when the key is present; \<open>token\<close> is the value of
  \<^verbatim>\<open>secrets.token_hex(8)\<close>. An exception of \<^verbatim>\<open>open\<close> or \<^verbatim>\<open>write\<close> in the admin branch
  is not caught by the route.
\<close>

definition save_file ::
  "world \<Rightarrow> int option \<Rightarrow> string \<Rightarrow> string \<Rightarrow> string \<Rightarrow> string \<Rightarrow> string
     \<Rightarrow> error + (world \<times> emission list \<times> reply)" where
  "save_file w uid session_id path content user_info token =
     (case projects w session_id of
        None \<Rightarrow> Inr (w, [], Reply 404 ''Project not found'')
      | Some p \<Rightarrow>
          if is_user_admin uid p then
            (if \<not> is_safe_path (cwd w) (workspace_path p) path
             then Inr (w, [], Reply 400 ''Invalid path'')
             else
               let full_path = path_join (workspace_path p) path in
               (case write_error w full_path of
                  Some e \<Rightarrow> Inl (OSError e)
                | None \<Rightarrow>
                    Inr (w\<lparr>files := (files w)(full_path \<mapsto> content)\<rparr>,
                         [emit (File_saved path user_info content (mtime w full_path)) session_id],
                         Reply 200 ''success'')))
          else
            let ss = ensure_session session_id (active_sessions w);
                sd = session_of ss session_id;
                sd' = sd\<lparr>pending_approvals :=
                         pending_approvals sd @ [Save token path content user_info]\<rparr>
            in Inr (w\<lparr>active_sessions := AList.update session_id sd' ss\<rparr>,
                    [emit (Approval_request token path user_info) (admin_room session_id)],
                    Reply 200 ''pending_approval''))"

text \<open>\<^verbatim>\<open>kick_user\<close> (\<^verbatim>\<open>POST /api/admin/kick-user/<session_id>/<sid>\<close>).\<close>

definition kick_user :: "world \<Rightarrow> int option \<Rightarrow> string \<Rightarrow> string \<Rightarrow> world \<times> emission list \<times> reply" where
  "kick_user w uid session_id target =
     (case uid of
        None \<Rightarrow> (w, [], Reply 401 ''Not authenticated'')
      | Some u \<Rightarrow>
          (case projects w session_id of
             None \<Rightarrow> (w, [], Reply 403 ''Not authorized'')
           | Some p \<Rightarrow>
               if u \<noteq> admin_id p then (w, [], Reply 403 ''Not authorized'')
               else
                 let (ss', out) =
                       (case map_of (active_sessions w) session_id of
                          None \<Rightarrow> (active_sessions w, [])
                        | Some sd \<Rightarrow>
                            (case find (\<lambda>x. sid x = target) (users sd) of
                               None \<Rightarrow> (active_sessions w, [])
                             | Some x \<Rightarrow>
                                 (AList.update session_id
                                    (sd\<lparr>users := filter (\<lambda>y. sid y \<noteq> target) (users sd)\<rparr>)
                                    (active_sessions w),
                                  [emit (User_left target (username x)) session_id])))
                 in (w\<lparr>active_sessions := ss'\<rparr>, out @ [emit Kicked target],
                     Reply 200 ''success'')))"

text \<open>\<^verbatim>\<open>close_session\<close> (\<^verbatim>\<open>POST /api/admin/close-session/<session_id>\<close>).\<close>

definition close_session :: "world \<Rightarrow> int option \<Rightarrow> string \<Rightarrow> world \<times> emission list \<times> reply" where
  "close_session w uid session_id =
     (case uid of
        None \<Rightarrow> (w, [], Reply 401 ''Not authenticated'')
      | Some u \<Rightarrow>
          (case projects w session_id of
             None \<Rightarrow> (w, [], Reply 403 ''Not authorized'')
           | Some p \<Rightarrow>
               if u \<noteq> admin_id p then (w, [], Reply 403 ''Not authorized'')
               else (w\<lparr>projects := (projects w)(session_id \<mapsto> p\<lparr>active := False\<rparr>)\<rparr>,
                     [emit Session_closed session_id],
                     Reply 200 ''success'')))"

section \<open>WebSocket event handlers\<close>

text \<open>
  \<^verbatim>\<open>handle_join_session\<close>. \<open>rsid\<close> is \<^verbatim>\<open>request.sid\<close>, \<open>uid\<close> the logged-in account
  of the HTTP session if any, \<open>usid\<close> is \<^verbatim>\<open>data.get('sessionId')\<close>, \<open>token\<close> and \<open>draw\<close>
  are the values of \<^verbatim>\<open>secrets.token_hex(8)\<close> and of the random colour choice.
  The branches are in the order of the source: pending approval, reconnection, admin,
  non-admin.
\<close>

definition handle_join_session ::
  "world \<Rightarrow> string \<Rightarrow> int option \<Rightarrow> string \<Rightarrow> string \<Rightarrow> bool \<Rightarrow> string option \<Rightarrow> string \<Rightarrow> nat
     \<Rightarrow> world \<times> emission list" where
  "handle_join_session w rsid uid session_id uname anon usid token draw =
     (case projects w session_id of
        None \<Rightarrow> (w, [emit (Error ''Session not found or inactive'') rsid])
      | Some p \<Rightarrow>
          if \<not> active p then (w, [emit (Error ''Session not found or inactive'') rsid])
          else
            let ss = ensure_session session_id (active_sessions w);
                sd = session_of ss session_id;
                is_pending = (\<lambda>a. get_sessionId a = usid \<and> a_type a = ''join'');
                adm = is_user_admin uid p
            in
            (case find is_pending (pending_approvals sd) of
               Some pending_approval \<Rightarrow>
                 (w\<lparr>active_sessions := AList.update session_id
                        (sd\<lparr>pending_approvals :=
                              update_first is_pending (set_sid rsid) (pending_approvals sd)\<rparr>) ss\<rparr>,
                  [emit Waiting_approval rsid])
             | None \<Rightarrow>
                 (case find (\<lambda>x. sessionId x = usid) (users sd) of
                    Some existing_user \<Rightarrow>
                      let user_data = (if adm then existing_user\<lparr>sid := rsid, is_admin := True\<rparr>
                                       else existing_user\<lparr>sid := rsid\<rparr>);
                          us = update_first (\<lambda>x. sessionId x = usid) (\<lambda>x. user_data) (users sd);
                          rms = join_room session_id rsid (rooms w);
                          rms' = (if adm then join_room (admin_room session_id) rsid rms else rms)
                      in (w\<lparr>active_sessions := AList.update session_id (sd\<lparr>users := us\<rparr>) ss,
                            rooms := rms'\<rparr>,
                          [emit (User_connected user_data) rsid, emit (Session_state us) rsid])
                  | None \<Rightarrow>
                      if adm then
                        (if int (length (users sd)) \<ge> max_users p
                         then (w\<lparr>active_sessions := ss\<rparr>, [emit (Error ''Session is full'') rsid])
                         else
                           let user_data = \<lparr>sid = rsid, username = uname,
                                 color = assign_color draw, current_file = None,
                                 is_anonymous = anon, sessionId = usid, is_admin = True\<rparr>;
                               us = users sd @ [user_data]
                           in (w\<lparr>active_sessions := AList.update session_id (sd\<lparr>users := us\<rparr>) ss,
                                 rooms := join_room (admin_room session_id) rsid
                                            (join_room session_id rsid (rooms w))\<rparr>,
                               [emit (User_connected user_data) rsid,
                                emit (User_joined uname (color user_data) user_data us) session_id]))
                      else
                        (if int (length (users sd)) \<ge> max_users p
                         then (w\<lparr>active_sessions := ss\<rparr>, [emit (Error ''Session is full'') rsid])
                         else
                           (case find is_pending (pending_approvals sd) of
                              Some existing_pending \<Rightarrow>
                                (w\<lparr>active_sessions := AList.update session_id
                                       (sd\<lparr>pending_approvals :=
                                             update_first is_pending (set_sid rsid)
                                               (pending_approvals sd)\<rparr>) ss\<rparr>,
                                 [emit Waiting_approval rsid])
                            | None \<Rightarrow>
                                (w\<lparr>active_sessions := AList.update session_id
                                       (sd\<lparr>pending_approvals := pending_approvals sd
                                              @ [Join token uname anon usid rsid]\<rparr>) ss\<rparr>,
                                 [emit (Join_approval_request token uname) (admin_room session_id),
                                  emit Waiting_approval rsid]))))))"

text \<open>
  \<^verbatim>\<open>handle_join_approval_response\<close>. \<^verbatim>\<open>project.max_users\<close> raises
  \<^verbatim>\<open>AttributeError\<close> when the project row is missing.
\<close>

definition handle_join_approval_response ::
  "world \<Rightarrow> string \<Rightarrow> string \<Rightarrow> bool \<Rightarrow> nat \<Rightarrow> error + (world \<times> emission list)" where
  "handle_join_approval_response w session_id approval_id approved draw =
     (case map_of (active_sessions w) session_id of
        None \<Rightarrow> Inr (w, [])
      | Some sd \<Rightarrow>
          (case find (\<lambda>a. a_id a = approval_id \<and> a_type a = ''join'') (pending_approvals sd) of
             None \<Rightarrow> Inr (w, [])
           | Some (Save i pa c ui) \<Rightarrow> Inl KeyError
           | Some (Join i a_username a_is_anonymous a_sessionId a_sid) \<Rightarrow>
               let remaining = filter (\<lambda>a. a_id a \<noteq> approval_id) (pending_approvals sd) in
               if approved then
                 (case projects w session_id of
                    None \<Rightarrow> Inl AttributeError
                  | Some p \<Rightarrow>
                      if int (length (users sd)) \<ge> max_users p then
                        Inr (w\<lparr>active_sessions := AList.update session_id
                                 (sd\<lparr>pending_approvals := remaining\<rparr>) (active_sessions w)\<rparr>,
                             [emit (Error ''Session is full'') a_sid])
                      else
                        let user_data = \<lparr>sid = a_sid, username = a_username,
                              color = assign_color draw, current_file = None,
                              is_anonymous = a_is_anonymous, sessionId = a_sessionId,
                              is_admin = False\<rparr>;
                            us = users sd @ [user_data]
                        in Inr (w\<lparr>active_sessions := AList.update session_id
                                    (sd\<lparr>users := us, pending_approvals := remaining\<rparr>)
                                    (active_sessions w),
                                  rooms := join_room session_id a_sid (rooms w)\<rparr>,
                                [emit (Join_approved user_data) a_sid,
                                 emit (Session_state us) a_sid,
                                 emit (User_joined a_username (color user_data) user_data us)
                                   session_id]))
               else
                 Inr (w\<lparr>active_sessions := AList.update session_id
                          (sd\<lparr>pending_approvals := remaining\<rparr>) (active_sessions w)\<rparr>,
                      [emit Join_rejected a_sid])))"

text \<open>\<^verbatim>\<open>handle_leave_session\<close>.\<close>

definition handle_leave_session :: "world \<Rightarrow> string \<Rightarrow> string \<Rightarrow> world \<times> emission list" where
  "handle_leave_session w rsid session_id =
     (case map_of (active_sessions w) session_id of
        None \<Rightarrow> (w, [])
      | Some sd \<Rightarrow>
          (w\<lparr>active_sessions := AList.update session_id
                (sd\<lparr>users := filter (\<lambda>x. sid x \<noteq> rsid) (users sd)\<rparr>) (active_sessions w),
              rooms := leave_room session_id rsid (rooms w)\<rparr>,
           (case find (\<lambda>x. sid x = rsid) (users sd) of
              None \<Rightarrow> []
            | Some x \<Rightarrow> [emit (User_left rsid (username x)) session_id])))"

text \<open>\<^verbatim>\<open>handle_cursor_move\<close>: the broadcast has \<^verbatim>\<open>include_self=False\<close>.\<close>

definition handle_cursor_move ::
  "world \<Rightarrow> string \<Rightarrow> string \<Rightarrow> string \<Rightarrow> string \<Rightarrow> world \<times> emission list" where
  "handle_cursor_move w rsid session_id position file =
     (case map_of (active_sessions w) session_id of
        None \<Rightarrow> (w, [])
      | Some sd \<Rightarrow>
          (case find (\<lambda>x. sid x = rsid) (users sd) of
             None \<Rightarrow> (w, [])
           | Some x \<Rightarrow>
               (w, [emit_others (Cursor_update rsid position file (color x) (username x))
                      session_id rsid])))"

text \<open>\<^verbatim>\<open>handle_file_change\<close>.\<close>

definition handle_file_change ::
  "world \<Rightarrow> string \<Rightarrow> string \<Rightarrow> string \<Rightarrow> string \<Rightarrow> int \<Rightarrow> world \<times> emission list" where
  "handle_file_change w rsid session_id changes file version =
     (w, [emit_others (Content_update rsid changes file version) session_id rsid])"

text \<open>\<^verbatim>\<open>handle_file_open\<close>: the broadcast has \<^verbatim>\<open>include_self=True\<close>.\<close>

definition handle_file_open :: "world \<Rightarrow> string \<Rightarrow> string \<Rightarrow> string \<Rightarrow> world \<times> emission list" where
  "handle_file_open w rsid session_id file_path =
     ((case map_of (active_sessions w) session_id of
         None \<Rightarrow> w
       | Some sd \<Rightarrow>
           w\<lparr>active_sessions := AList.update session_id
               (sd\<lparr>users := update_first (\<lambda>x. sid x = rsid)
                                (\<lambda>x. x\<lparr>current_file := Some file_path\<rparr>) (users sd)\<rparr>)
               (active_sessions w)\<rparr>),
      [emit (User_file_change rsid file_path) session_id])"

text \<open>
  \<^verbatim>\<open>handle_chat_message\<close>. \<open>given_color\<close> is \<^verbatim>\<open>data.get('color')\<close> when the key is
  present, \<open>now\<close> is \<^verbatim>\<open>datetime.utcnow().isoformat()\<close>.
\<close>

definition handle_chat_message ::
  "world \<Rightarrow> string \<Rightarrow> string \<Rightarrow> string option \<Rightarrow> string \<Rightarrow> string \<Rightarrow> world \<times> emission list" where
  "handle_chat_message w session_id uname given_color message now =
     (let user_color = (case given_color of None \<Rightarrow> ''#999'' | Some c \<Rightarrow> c);
          user_color' =
            (case map_of (active_sessions w) session_id of
               None \<Rightarrow> user_color
             | Some sd \<Rightarrow>
                 (case find (\<lambda>x. username x = uname) (users sd) of
                    None \<Rightarrow> user_color
                  | Some x \<Rightarrow> color x))
      in (w, [emit (Chat_message uname user_color' message now) session_id]))"

text \<open>
  \<^verbatim>\<open>handle_approval_response\<close>. The approval is looked up by id alone. The
  \<^verbatim>\<open>try\<close>/\<^verbatim>\<open>except\<close> around the write turns a failure into an \<^verbatim>\<open>error\<close> event to the
  caller, after which the handler goes on; the path check returns from the handler.
\<close>

definition handle_approval_response ::
  "world \<Rightarrow> string \<Rightarrow> string \<Rightarrow> string \<Rightarrow> bool \<Rightarrow> error + (world \<times> emission list)" where
  "handle_approval_response w rsid session_id approval_id approved =
     (case map_of (active_sessions w) session_id of
        None \<Rightarrow> Inr (w, [])
      | Some sd \<Rightarrow>
          (case find (\<lambda>a. a_id a = approval_id) (pending_approvals sd) of
             None \<Rightarrow> Inr (w, [])
           | Some approval \<Rightarrow>
               let finish = (\<lambda>w' out.
                     Inr (w'\<lparr>active_sessions := AList.update session_id
                               (sd\<lparr>pending_approvals :=
                                     filter (\<lambda>a. a_id a \<noteq> approval_id) (pending_approvals sd)\<rparr>)
                               (active_sessions w')\<rparr>,
                          out @ [emit (Approval_result approval_id approved) session_id]))
               in
               (case approval of
                  Join i n an si s \<Rightarrow> finish w []
                | Save i path content user_info \<Rightarrow>
                    if \<not> approved then finish w []
                    else
                      (case projects w session_id of
                         None \<Rightarrow> Inl AttributeError
                       | Some p \<Rightarrow>
                           if \<not> is_safe_path (cwd w) (workspace_path p) path
                           then Inr (w, [emit (Error ''Invalid path'') rsid])
                           else
                             let full_path = path_join (workspace_path p) path in
                             (case write_error w full_path of
                                None \<Rightarrow>
                                  finish (w\<lparr>files := (files w)(full_path \<mapsto> content)\<rparr>)
                                    [emit (File_saved path user_info content (mtime w full_path))
                                       session_id]
                              | Some e \<Rightarrow>
                                  finish w [emit (Error (''Failed to save: '' @ e)) rsid])))))"

text \<open>
  \<^verbatim>\<open>handle_disconnect\<close>: the loop over \<^verbatim>\<open>active_sessions.items()\<close>. In a session where
  the connection is a participant, the participant is removed and the loop is left with
  \<^verbatim>\<open>break\<close>; the statement that filters \<^verbatim>\<open>pending_approvals\<close> comes after the
  \<^verbatim>\<open>if\<close> inside the loop body, so it runs only for the sessions visited before the
  \<^verbatim>\<open>break\<close>.
\<close>

fun disconnect_loop ::
  "string \<Rightarrow> (string \<times> session_data) list \<Rightarrow> (string \<times> session_data) list \<times> emission list" where
  "disconnect_loop rsid [] = ([], [])"
| "disconnect_loop rsid ((session_id, session_data) # rest) =
     (case find (\<lambda>x. sid x = rsid) (users session_data) of
        Some x \<Rightarrow>
          ((session_id, session_data\<lparr>users := filter (\<lambda>y. sid y \<noteq> rsid) (users session_data)\<rparr>)
             # rest,
           [emit_others (User_left rsid (username x)) session_id rsid])
      | None \<Rightarrow>
          (let (rest', out) = disconnect_loop rsid rest
           in ((session_id, session_data\<lparr>pending_approvals :=
                   filter (\<lambda>a. get_sid a \<noteq> Some rsid) (pending_approvals session_data)\<rparr>) # rest',
               out)))"

definition handle_disconnect :: "world \<Rightarrow> string \<Rightarrow> world \<times> emission list" where
  "handle_disconnect w rsid =
     (let (ss, out) = disconnect_loop rsid (active_sessions w)
      in (w\<lparr>active_sessions := ss\<rparr>, out))"

section \<open>Runs of the coordination core\<close>

text \<open>
  One constructor per inbound operation, carrying the arguments of the handler in the
  handler's order. The handlers run one at a time, each to completion.
\<close>

datatype inbound =
    Save_file "int option" string string string string string
  | Kick_user "int option" string string
  | Close_session "int option" string
  | Join_session string "int option" string string bool "string option" string nat
  | Join_approval_response string string bool nat
  | Leave_session string string
  | Cursor_move string string string string
  | File_change string string string string int
  | File_open string string string
  | Chat string string "string option" string string
  | Approval_response string string string bool
  | Disconnect string

text \<open>
  The state after one operation. A handler that raises has not yet written anything when it
  raises, so the state is the one before. After \<^verbatim>\<open>handle_disconnect\<close> the Socket.IO
  server takes the closed connection out of every room.
\<close>

fun step :: "world \<Rightarrow> inbound \<Rightarrow> world" where
  "step w (Save_file uid session_id path content user_info token) =
     (case save_file w uid session_id path content user_info token of
        Inl e \<Rightarrow> w | Inr (w', out, r) \<Rightarrow> w')"
| "step w (Kick_user uid session_id target) =
     (case kick_user w uid session_id target of (w', out, r) \<Rightarrow> w')"
| "step w (Close_session uid session_id) =
     (case close_session w uid session_id of (w', out, r) \<Rightarrow> w')"
| "step w (Join_session rsid uid session_id uname anon usid token draw) =
     fst (handle_join_session w rsid uid session_id uname anon usid token draw)"
| "step w (Join_approval_response session_id approval_id approved draw) =
     (case handle_join_approval_response w session_id approval_id approved draw of
        Inl e \<Rightarrow> w | Inr (w', out) \<Rightarrow> w')"
| "step w (Leave_session rsid session_id) = fst (handle_leave_session w rsid session_id)"
| "step w (Cursor_move rsid session_id position file) =
     fst (handle_cursor_move w rsid session_id position file)"
| "step w (File_change rsid session_id changes file version) =
     fst (handle_file_change w rsid session_id changes file version)"
| "step w (File_open rsid session_id file_path) =
     fst (handle_file_open w rsid session_id file_path)"
| "step w (Chat session_id uname given_color message now) =
     fst (handle_chat_message w session_id uname given_color message now)"
| "step w (Approval_response rsid session_id approval_id approved) =
     (case handle_approval_response w rsid session_id approval_id approved of
        Inl e \<Rightarrow> w | Inr (w', out) \<Rightarrow> w')"
| "step w (Disconnect rsid) =
     (let w' = fst (handle_disconnect w rsid)
      in w'\<lparr>rooms := filter (\<lambda>(r, c). c \<noteq> rsid) (rooms w')\<rparr>)"

definition run :: "world \<Rightarrow> inbound list \<Rightarrow> world" where
  "run w evs = foldl step w evs"



section \<open>Invariants\<close>

text \<open>The roster of every session is within the capacity of its project.\<close>

definition sessions_ok :: "(string \<Rightarrow> session_data \<Rightarrow> bool) \<Rightarrow> (string \<times> session_data) list \<Rightarrow> bool" where
  "sessions_ok P ss \<longleftrightarrow> (\<forall>(k, sd) \<in> set ss. P k sd)"

definition cap_ok :: "(string \<rightharpoonup> project) \<Rightarrow> string \<Rightarrow> session_data \<Rightarrow> bool" where
  "cap_ok pr k sd \<longleftrightarrow>
     (case pr k of None \<Rightarrow> True | Some p \<Rightarrow> int (length (users sd)) \<le> max_users p)"

definition within_capacity :: "world \<Rightarrow> bool" where
  "within_capacity w \<longleftrightarrow> sessions_ok (cap_ok (projects w)) (active_sessions w)"

definition capacities_nonneg :: "world \<Rightarrow> bool" where
  "capacities_nonneg w \<longleftrightarrow> (\<forall>k p. projects w k = Some p \<longrightarrow> 0 \<le> max_users p)"

text \<open>The stable identities of the outstanding \<^verbatim>\<open>'join'\<close> approvals of a session.\<close>

definition pending_join_identities :: "session_data \<Rightarrow> string option list" where
  "pending_join_identities sd =
     map get_sessionId (filter (\<lambda>a. a_type a = ''join'') (pending_approvals sd))"

definition one_pending_join :: "world \<Rightarrow> bool" where
  "one_pending_join w \<longleftrightarrow>
     sessions_ok (\<lambda>k sd. distinct (pending_join_identities sd)) (active_sessions w)"

text \<open>
  A connection that is in the roster of a session is a member of the session's Socket.IO
  room. The keys of \<^verbatim>\<open>active_sessions\<close> are those of a dictionary, so no key occurs
  twice.
\<close>

definition participants_in_room :: "world \<Rightarrow> string \<Rightarrow> bool" where
  "participants_in_room w c \<longleftrightarrow>
     distinct (map fst (active_sessions w))
     \<and> sessions_ok (\<lambda>k sd. c \<in> sid ` set (users sd) \<longrightarrow> (k, c) \<in> set (rooms w))
           (active_sessions w)"

section \<open>Example states\<close>

definition example_project :: project where
  "example_project =
     \<lparr>admin_id = 1, workspace_path = ''/srv/workspaces/s1'', max_users = 3, active = True\<rparr>"

definition alice :: user where
  "alice = \<lparr>sid = ''c1'', username = ''alice'', color = ''#FF6B6B'', current_file = None,
            is_anonymous = False, sessionId = Some ''t1'', is_admin = True\<rparr>"

definition bob :: user where
  "bob = \<lparr>sid = ''c2'', username = ''bob'', color = ''#4ECDC4'', current_file = None,
          is_anonymous = True, sessionId = Some ''t2'', is_admin = False\<rparr>"

text \<open>A server with one open project, its admin account 1, and nobody connected.\<close>

definition empty_world :: world where
  "empty_world =
     \<lparr>active_sessions = [], projects = [''s1'' \<mapsto> example_project], files = Map.empty,
      rooms = [], write_error = (\<lambda>p. None), mtime = (\<lambda>p. 0), cwd = ''/srv''\<rparr>"

text \<open>The admin and one approved participant are connected to the session.\<close>

definition example_world :: world where
  "example_world =
     empty_world\<lparr>active_sessions := [(''s1'', \<lparr>users = [alice, bob], pending_approvals = []\<rparr>)],
       rooms := [(''s1'', ''c2''), (''s1_admin'', ''c1''), (''s1'', ''c1'')]\<rparr>"

definition carol :: user where
  "carol = \<lparr>sid = ''c3'', username = ''carol'', color = ''#45B7D1'', current_file = None,
            is_anonymous = True, sessionId = Some ''t3'', is_admin = False\<rparr>"

text \<open>A third person has asked to join and waits for the admin's decision.\<close>

definition pending_world :: world where
  "pending_world =
     example_world\<lparr>active_sessions :=
       [(''s1'', \<lparr>users = [alice, bob],
                 pending_approvals = [Join ''k2'' ''carol'' True (Some ''t3'') ''c3'']\<rparr>)]\<rparr>"

text \<open>
  The session is at its capacity of three, and a fourth person, who asked to join while
  there was still room, waits for the admin's decision.
\<close>

definition full_world :: world where
  "full_world =
     example_world\<lparr>active_sessions :=
       [(''s1'', \<lparr>users = [alice, bob, carol],
                 pending_approvals = [Join ''k3'' ''dave'' True (Some ''t4'') ''c4'']\<rparr>)],
       rooms := [(''s1'', ''c3''), (''s1'', ''c2''), (''s1_admin'', ''c1''), (''s1'', ''c1'')]\<rparr>"

section \<open>Auxiliary facts about the dictionary and list idioms\<close>

lemma sessions_ok_update:
  "sessions_ok P ss \<Longrightarrow> P k v \<Longrightarrow> sessions_ok P (AList.update k v ss)"
  unfolding sessions_ok_def by (induction ss) auto

lemma sessions_ok_ensure:
  "sessions_ok P ss \<Longrightarrow> P k new_session \<Longrightarrow> sessions_ok P (ensure_session k ss)"
  by (auto simp: sessions_ok_def ensure_session_def split: option.splits)

lemma session_of_ensure_session [simp]: "session_of (ensure_session k ss) k = session_of ss k"
  by (auto simp: ensure_session_def session_of_def split: option.splits)

lemma sessions_ok_session_of:
  "sessions_ok P ss \<Longrightarrow> P k new_session \<Longrightarrow> P k (session_of ss k)"
  by (auto simp: sessions_ok_def session_of_def split: option.splits dest: map_of_SomeD)

lemma sessions_ok_map_of:
  "sessions_ok P ss \<Longrightarrow> map_of ss k = Some sd \<Longrightarrow> P k sd"
  by (auto simp: sessions_ok_def dest: map_of_SomeD)

lemma length_update_first [simp]: "length (update_first P f xs) = length xs"
  by (induction xs) auto

lemma join_projects [simp]:
  "projects (fst (handle_join_session w rsid uid session_id uname anon usid token draw)) = projects w"
  by (simp add: handle_join_session_def Let_def split: option.splits)

lemma cap_ok_new: "capacities_nonneg w \<Longrightarrow> cap_ok (projects w) k new_session"
  by (auto simp: capacities_nonneg_def cap_ok_def new_session_def split: option.splits)

lemma cap_ok_length:
  "cap_ok pr k sd \<Longrightarrow> length (users sd') \<le> length (users sd) \<Longrightarrow> cap_ok pr k sd'"
  by (auto simp: cap_ok_def split: option.splits)

lemma cap_ok_append:
  "pr k = Some p \<Longrightarrow> \<not> max_users p \<le> int (length (users sd)) \<Longrightarrow> users sd' = users sd @ [u]
     \<Longrightarrow> cap_ok pr k sd'"
  by (auto simp: cap_ok_def)

lemma join_within_capacity:
  assumes inv: "within_capacity w" and nn: "capacities_nonneg w"
  shows "within_capacity (fst (handle_join_session w rsid uid session_id uname anon usid token draw))"
proof (cases "projects w session_id")
  case None
  then show ?thesis using inv by (simp add: handle_join_session_def)
next
  case (Some p)
  let ?ss = "ensure_session session_id (active_sessions w)"
  let ?sd = "session_of (active_sessions w) session_id"
  have all: "sessions_ok (cap_ok (projects w)) (active_sessions w)"
    using inv by (simp add: within_capacity_def)
  have new: "cap_ok (projects w) session_id new_session"
    by (rule cap_ok_new [OF nn])
  have ss: "sessions_ok (cap_ok (projects w)) ?ss"
    by (rule sessions_ok_ensure [OF all new])
  have sd: "cap_ok (projects w) session_id ?sd"
    by (rule sessions_ok_session_of [OF all new])
  have upd: "\<And>sd'. cap_ok (projects w) session_id sd' \<Longrightarrow>
      sessions_ok (cap_ok (projects w)) (AList.update session_id sd' ?ss)"
    by (rule sessions_ok_update [OF ss])
  have same: "\<And>sd'. length (users sd') \<le> length (users ?sd) \<Longrightarrow> cap_ok (projects w) session_id sd'"
    by (rule cap_ok_length [OF sd])
  have app: "\<And>sd' u. \<not> max_users p \<le> int (length (users ?sd)) \<Longrightarrow> users sd' = users ?sd @ [u]
      \<Longrightarrow> cap_ok (projects w) session_id sd'"
    using Some by (auto intro: cap_ok_append)
  show ?thesis
    unfolding within_capacity_def join_projects
    using Some all ss
    by (simp add: handle_join_session_def Let_def upd same app split: option.splits)
qed


lemma cap_ok_users_filter: "cap_ok pr k sd \<Longrightarrow> cap_ok pr k (sd\<lparr>users := filter f (users sd)\<rparr>)"
  by (erule cap_ok_length) simp

lemma cap_ok_pending: "cap_ok pr k (sd\<lparr>pending_approvals := ps\<rparr>) = cap_ok pr k sd"
  by (simp add: cap_ok_def split: option.splits)

lemma sessions_ok_disconnect_loop:
  assumes "sessions_ok P ss"
    and "\<And>k sd f. P k sd \<Longrightarrow> P k (sd\<lparr>users := filter f (users sd)\<rparr>)"
    and "\<And>k sd g. P k sd \<Longrightarrow> P k (sd\<lparr>pending_approvals := filter g (pending_approvals sd)\<rparr>)"
  shows "sessions_ok P (fst (disconnect_loop c ss))"
  using assms(1)
proof (induction ss)
  case Nil
  then show ?case by (simp add: sessions_ok_def)
next
  case (Cons a ss)
  obtain k sd where a: "a = (k, sd)" by (cases a)
  from Cons.prems have P: "P k sd" and rest: "sessions_ok P ss"
    by (auto simp: a sessions_ok_def)
  show ?case
  proof (cases "find (\<lambda>x. sid x = c) (users sd)")
    case None
    have "sessions_ok P (fst (disconnect_loop c ss))" by (rule Cons.IH [OF rest])
    with P None show ?thesis
      by (simp add: a sessions_ok_def assms(3) split_beta)
  next
    case (Some u)
    with P rest show ?thesis
      by (simp add: a sessions_ok_def assms(2))
  qed
qed

lemma save_file_within_capacity:
  assumes res: "save_file w uid session_id path content user_info token = Inr (w', out, r)"
    and inv: "within_capacity w" and nn: "capacities_nonneg w"
  shows "within_capacity w' \<and> projects w' = projects w"
proof -
  have all: "sessions_ok (cap_ok (projects w)) (active_sessions w)"
    using inv by (simp add: within_capacity_def)
  have new: "cap_ok (projects w) session_id new_session"
    by (rule cap_ok_new [OF nn])
  have ss: "sessions_ok (cap_ok (projects w)) (ensure_session session_id (active_sessions w))"
    by (rule sessions_ok_ensure [OF all new])
  have sd: "cap_ok (projects w) session_id (session_of (active_sessions w) session_id)"
    by (rule sessions_ok_session_of [OF all new])
  have upd: "\<And>sd'. cap_ok (projects w) session_id sd' \<Longrightarrow>
      sessions_ok (cap_ok (projects w))
        (AList.update session_id sd' (ensure_session session_id (active_sessions w)))"
    by (rule sessions_ok_update [OF ss])
  show ?thesis
    using res all
    by (auto simp: save_file_def Let_def within_capacity_def cap_ok_pending sd upd
        split: option.splits if_splits)
qed

lemma kick_user_within_capacity:
  assumes res: "kick_user w uid session_id target = (w', out, r)"
    and inv: "within_capacity w"
  shows "within_capacity w' \<and> projects w' = projects w"
proof -
  have all: "sessions_ok (cap_ok (projects w)) (active_sessions w)"
    using inv by (simp add: within_capacity_def)
  have sd: "\<And>sd. map_of (active_sessions w) session_id = Some sd \<Longrightarrow> cap_ok (projects w) session_id sd"
    by (rule sessions_ok_map_of [OF all])
  have upd: "\<And>sd'. cap_ok (projects w) session_id sd' \<Longrightarrow>
      sessions_ok (cap_ok (projects w)) (AList.update session_id sd' (active_sessions w))"
    by (rule sessions_ok_update [OF all])
  show ?thesis
    using res all
    by (auto simp: kick_user_def Let_def within_capacity_def sd upd cap_ok_users_filter
        split: option.splits if_splits)
qed

lemma cap_ok_close:
  "pr k = Some p \<Longrightarrow> cap_ok (pr(k \<mapsto> p\<lparr>active := False\<rparr>)) = cap_ok pr"
  by (auto simp: cap_ok_def fun_eq_iff)

lemma close_session_within_capacity:
  assumes "close_session w uid session_id = (w', out, r)"
    and inv: "within_capacity w" and nn: "capacities_nonneg w"
  shows "within_capacity w' \<and> capacities_nonneg w'"
  using assms
  by (auto simp: close_session_def within_capacity_def cap_ok_close capacities_nonneg_def
      split: option.splits if_splits)

lemma join_approval_within_capacity:
  assumes res: "handle_join_approval_response w session_id approval_id approved draw = Inr (w', out)"
    and inv: "within_capacity w"
  shows "within_capacity w' \<and> projects w' = projects w"
proof -
  have all: "sessions_ok (cap_ok (projects w)) (active_sessions w)"
    using inv by (simp add: within_capacity_def)
  have sd: "\<And>sd. map_of (active_sessions w) session_id = Some sd \<Longrightarrow> cap_ok (projects w) session_id sd"
    by (rule sessions_ok_map_of [OF all])
  have upd: "\<And>sd'. cap_ok (projects w) session_id sd' \<Longrightarrow>
      sessions_ok (cap_ok (projects w)) (AList.update session_id sd' (active_sessions w))"
    by (rule sessions_ok_update [OF all])
  have app: "\<And>p sd sd' u. projects w session_id = Some p \<Longrightarrow> \<not> max_users p \<le> int (length (users sd))
      \<Longrightarrow> users sd' = users sd @ [u] \<Longrightarrow> cap_ok (projects w) session_id sd'"
    by (rule cap_ok_append)
  show ?thesis
    using res all
    by (auto simp: handle_join_approval_response_def Let_def within_capacity_def cap_ok_pending
        sd upd app [where u="_"]
        split: option.splits if_splits approval.splits)
qed

lemma leave_within_capacity:
  assumes inv: "within_capacity w"
  shows "within_capacity (fst (handle_leave_session w rsid session_id))
       \<and> projects (fst (handle_leave_session w rsid session_id)) = projects w"
proof -
  have all: "sessions_ok (cap_ok (projects w)) (active_sessions w)"
    using inv by (simp add: within_capacity_def)
  have sd: "\<And>sd. map_of (active_sessions w) session_id = Some sd \<Longrightarrow> cap_ok (projects w) session_id sd"
    by (rule sessions_ok_map_of [OF all])
  have upd: "\<And>sd'. cap_ok (projects w) session_id sd' \<Longrightarrow>
      sessions_ok (cap_ok (projects w)) (AList.update session_id sd' (active_sessions w))"
    by (rule sessions_ok_update [OF all])
  show ?thesis
    using all
    by (simp add: handle_leave_session_def within_capacity_def sd upd cap_ok_users_filter
        split: option.splits)
qed

lemma file_open_within_capacity:
  assumes inv: "within_capacity w"
  shows "within_capacity (fst (handle_file_open w rsid session_id file_path))
       \<and> projects (fst (handle_file_open w rsid session_id file_path)) = projects w"
proof -
  have all: "sessions_ok (cap_ok (projects w)) (active_sessions w)"
    using inv by (simp add: within_capacity_def)
  have sd: "\<And>sd. map_of (active_sessions w) session_id = Some sd \<Longrightarrow> cap_ok (projects w) session_id sd"
    by (rule sessions_ok_map_of [OF all])
  have upd: "\<And>sd'. cap_ok (projects w) session_id sd' \<Longrightarrow>
      sessions_ok (cap_ok (projects w)) (AList.update session_id sd' (active_sessions w))"
    by (rule sessions_ok_update [OF all])
  have len: "\<And>sd f. map_of (active_sessions w) session_id = Some sd \<Longrightarrow>
      cap_ok (projects w) session_id (sd\<lparr>users := update_first (\<lambda>x. sid x = rsid) f (users sd)\<rparr>)"
    by (rule cap_ok_length [OF sd], assumption, simp)
  show ?thesis
    using all
    by (simp add: handle_file_open_def within_capacity_def upd len split: option.splits)
qed

lemma approval_within_capacity:
  assumes res: "handle_approval_response w rsid session_id approval_id approved = Inr (w', out)"
    and inv: "within_capacity w"
  shows "within_capacity w' \<and> projects w' = projects w"
proof -
  have all: "sessions_ok (cap_ok (projects w)) (active_sessions w)"
    using inv by (simp add: within_capacity_def)
  have sd: "\<And>sd. map_of (active_sessions w) session_id = Some sd \<Longrightarrow> cap_ok (projects w) session_id sd"
    by (rule sessions_ok_map_of [OF all])
  have upd: "\<And>sd'. cap_ok (projects w) session_id sd' \<Longrightarrow>
      sessions_ok (cap_ok (projects w)) (AList.update session_id sd' (active_sessions w))"
    by (rule sessions_ok_update [OF all])
  show ?thesis
    using res all
    by (auto simp: handle_approval_response_def Let_def within_capacity_def cap_ok_pending sd upd
        split: option.splits if_splits approval.splits)
qed

lemma disconnect_within_capacity:
  assumes inv: "within_capacity w"
  shows "within_capacity (fst (handle_disconnect w rsid))
       \<and> projects (fst (handle_disconnect w rsid)) = projects w"
proof -
  have "sessions_ok (cap_ok (projects w)) (fst (disconnect_loop rsid (active_sessions w)))"
    using inv unfolding within_capacity_def
    by (rule sessions_ok_disconnect_loop) (simp_all add: cap_ok_users_filter cap_ok_pending)
  then show ?thesis
    by (simp add: handle_disconnect_def within_capacity_def split_beta)
qed

lemma step_within_capacity:
  assumes "within_capacity w" and "capacities_nonneg w"
  shows "within_capacity (step w ev) \<and> capacities_nonneg (step w ev)"
proof (cases ev)
  case (Save_file uid session_id path content user_info token)
  then show ?thesis
    using assms save_file_within_capacity [of w uid session_id path content user_info token]
    by (auto simp: capacities_nonneg_def split: sum.splits)
next
  case (Kick_user uid session_id target)
  then show ?thesis
    using assms kick_user_within_capacity [of w uid session_id target]
    by (auto simp: capacities_nonneg_def split: prod.splits)
next
  case (Close_session uid session_id)
  then show ?thesis
    using assms close_session_within_capacity [of w uid session_id]
    by (auto split: prod.splits)
next
  case (Join_session rsid uid session_id uname anon usid token draw)
  then show ?thesis
    using assms join_within_capacity [of w rsid uid session_id uname anon usid token draw]
    by (simp add: capacities_nonneg_def)
next
  case (Join_approval_response session_id approval_id approved draw)
  then show ?thesis
    using assms join_approval_within_capacity [of w session_id approval_id approved draw]
    by (auto simp: capacities_nonneg_def split: sum.splits)
next
  case (Leave_session rsid session_id)
  then show ?thesis
    using assms leave_within_capacity [of w rsid session_id]
    by (simp add: capacities_nonneg_def)
next
  case (Cursor_move rsid session_id position fl)
  then show ?thesis
    using assms by (simp add: handle_cursor_move_def split: option.splits)
next
  case (File_change rsid session_id changes fl version)
  then show ?thesis
    using assms by (simp add: handle_file_change_def)
next
  case (File_open rsid session_id file_path)
  then show ?thesis
    using assms file_open_within_capacity [of w rsid session_id file_path]
    by (simp add: capacities_nonneg_def)
next
  case (Chat session_id uname given_color message now)
  then show ?thesis
    using assms by (simp add: handle_chat_message_def Let_def)
next
  case (Approval_response rsid session_id approval_id approved)
  then show ?thesis
    using assms approval_within_capacity [of w rsid session_id approval_id approved]
    by (auto simp: capacities_nonneg_def split: sum.splits)
next
  case (Disconnect rsid)
  then show ?thesis
    using assms disconnect_within_capacity [of w rsid]
    by (auto simp: capacities_nonneg_def within_capacity_def Let_def)
qed

lemma run_within_capacity:
  "within_capacity w \<Longrightarrow> capacities_nonneg w
     \<Longrightarrow> within_capacity (run w evs) \<and> capacities_nonneg (run w evs)"
  unfolding run_def
  by (induction evs arbitrary: w) (simp_all add: step_within_capacity)

lemma find_filter_neq_None: "find (\<lambda>a. f a = k \<and> P a) (filter (\<lambda>a. f a \<noteq> k) xs) = None"
  by (induction xs) auto

lemma map_of_update_same: "map_of (AList.update k v ss) k = Some v"
  by (simp add: update_conv')

lemma session_of_update [simp]: "session_of (AList.update k v ss) k = v"
  by (simp add: session_of_def map_of_update_same)

lemma find_distinct_map:
  "distinct (map f xs) \<Longrightarrow> x \<in> set xs \<Longrightarrow> find (\<lambda>a. f a = f x) xs = Some x"
  by (induction xs) (auto simp: image_iff)

lemma join_full_refused:
  assumes "projects w session_id = Some p" and "active p"
    and "max_users p \<le> int (length (users (session_of (active_sessions w) session_id)))"
    and "find (\<lambda>a. get_sessionId a = usid \<and> a_type a = ''join'')
           (pending_approvals (session_of (active_sessions w) session_id)) = None"
    and "find (\<lambda>x. sessionId x = usid) (users (session_of (active_sessions w) session_id)) = None"
  shows "handle_join_session w rsid uid session_id uname anon usid token draw =
           (w\<lparr>active_sessions := ensure_session session_id (active_sessions w)\<rparr>,
            [emit (Error ''Session is full'') rsid])"
  using assms by (simp add: handle_join_session_def Let_def)

lemma join_approval_full_refused:
  assumes "map_of (active_sessions w) session_id = Some sd"
    and "find (\<lambda>a. a_id a = approval_id \<and> a_type a = ''join'') (pending_approvals sd)
           = Some (Join i n an si s)"
    and "projects w session_id = Some p"
    and "max_users p \<le> int (length (users sd))"
  shows "handle_join_approval_response w session_id approval_id True draw =
           Inr (w\<lparr>active_sessions := AList.update session_id
                     (sd\<lparr>pending_approvals :=
                           filter (\<lambda>a. a_id a \<noteq> approval_id) (pending_approvals sd)\<rparr>)
                     (active_sessions w)\<rparr>,
                [emit (Error ''Session is full'') s])"
  using assms by (simp add: handle_join_approval_response_def Let_def)

lemmas example_defs = example_world_def empty_world_def example_project_def alice_def bob_def
  carol_def pending_world_def full_world_def

lemmas eval_defs = ensure_session_def session_of_def is_user_admin_def assign_color_def
  user_colors_def join_room_def leave_room_def admin_room_def emit_def emit_others_def Let_def

section \<open>Capacity\<close>

text \<open>
  Claim C3. In every session the roster never exceeds the capacity \<^verbatim>\<open>max_users\<close> of the
  project: the bound survives \<^verbatim>\<open>handle_join_session\<close> (direct admission of the admin,
  reconnection, join request), \<^verbatim>\<open>handle_join_approval_response\<close>, and every run of
  inbound operations. When the roster is full, a direct admission or a join request is
  answered with \<^verbatim>\<open>Session is full\<close> and the state is the one before (up to the
  creation of the empty session entry); an approval at a full roster is answered with
  \<^verbatim>\<open>Session is full\<close> to the waiting connection and only drops the pending entry.
\<close>

theorem capacity_invariant:
  assumes "within_capacity w" and "capacities_nonneg w"
  shows "within_capacity (fst (handle_join_session w rsid uid session_id uname anon usid token draw))
    \<and> (\<forall>w' out. handle_join_approval_response w session_id approval_id approved draw = Inr (w', out)
          \<longrightarrow> within_capacity w')
    \<and> within_capacity (run w evs)
    \<and> (\<forall>p. projects w session_id = Some p \<and> active p
          \<and> max_users p \<le> int (length (users (session_of (active_sessions w) session_id)))
          \<and> find (\<lambda>a. get_sessionId a = usid \<and> a_type a = ''join'')
                (pending_approvals (session_of (active_sessions w) session_id)) = None
          \<and> find (\<lambda>x. sessionId x = usid) (users (session_of (active_sessions w) session_id)) = None
          \<longrightarrow> handle_join_session w rsid uid session_id uname anon usid token draw =
                (w\<lparr>active_sessions := ensure_session session_id (active_sessions w)\<rparr>,
                 [emit (Error ''Session is full'') rsid]))
    \<and> (\<forall>p sd i n an si s. map_of (active_sessions w) session_id = Some sd
          \<and> find (\<lambda>a. a_id a = approval_id \<and> a_type a = ''join'') (pending_approvals sd)
                = Some (Join i n an si s)
          \<and> projects w session_id = Some p \<and> max_users p \<le> int (length (users sd))
          \<longrightarrow> handle_join_approval_response w session_id approval_id True draw =
                Inr (w\<lparr>active_sessions := AList.update session_id
                          (sd\<lparr>pending_approvals :=
                                filter (\<lambda>a. a_id a \<noteq> approval_id) (pending_approvals sd)\<rparr>)
                          (active_sessions w)\<rparr>,
                     [emit (Error ''Session is full'') s]))"
proof (intro conjI allI impI)
  show "within_capacity (fst (handle_join_session w rsid uid session_id uname anon usid token draw))"
    by (rule join_within_capacity [OF assms])
next
  fix w' out
  assume "handle_join_approval_response w session_id approval_id approved draw = Inr (w', out)"
  from join_approval_within_capacity [OF this assms(1)] show "within_capacity w'" by simp
next
  show "within_capacity (run w evs)"
    using run_within_capacity [OF assms] by simp
next
  fix p
  assume "projects w session_id = Some p \<and> active p
          \<and> max_users p \<le> int (length (users (session_of (active_sessions w) session_id)))
          \<and> find (\<lambda>a. get_sessionId a = usid \<and> a_type a = ''join'')
                (pending_approvals (session_of (active_sessions w) session_id)) = None
          \<and> find (\<lambda>x. sessionId x = usid) (users (session_of (active_sessions w) session_id)) = None"
  then show "handle_join_session w rsid uid session_id uname anon usid token draw =
                (w\<lparr>active_sessions := ensure_session session_id (active_sessions w)\<rparr>,
                 [emit (Error ''Session is full'') rsid])"
    by (elim conjE) (rule join_full_refused, assumption+)
next
  fix p sd i n an si s
  assume "map_of (active_sessions w) session_id = Some sd
          \<and> find (\<lambda>a. a_id a = approval_id \<and> a_type a = ''join'') (pending_approvals sd)
                = Some (Join i n an si s)
          \<and> projects w session_id = Some p \<and> max_users p \<le> int (length (users sd))"
  then show "handle_join_approval_response w session_id approval_id True draw =
                Inr (w\<lparr>active_sessions := AList.update session_id
                          (sd\<lparr>pending_approvals :=
                                filter (\<lambda>a. a_id a \<noteq> approval_id) (pending_approvals sd)\<rparr>)
                          (active_sessions w)\<rparr>,
                     [emit (Error ''Session is full'') s])"
    by (elim conjE) (rule join_approval_full_refused, assumption+)
qed

theorem capacity_invariant_witness:
  "within_capacity full_world \<and> capacities_nonneg full_world
   \<and> within_capacity (run full_world
        [Join_session ''c5'' None ''s1'' ''erin'' True (Some ''t5'') ''k4'' 4,
         Join_approval_response ''s1'' ''k3'' True 3])
   \<and> handle_join_session full_world ''c5'' None ''s1'' ''erin'' True (Some ''t5'') ''k4'' 4 =
       (full_world, [emit (Error ''Session is full'') ''c5''])
   \<and> handle_join_approval_response full_world ''s1'' ''k3'' True 4 =
       Inr (full_world\<lparr>active_sessions :=
              [(''s1'', \<lparr>users = [alice, bob, carol], pending_approvals = []\<rparr>)]\<rparr>,
            [emit (Error ''Session is full'') ''c4''])"
proof -
  have h1: "within_capacity full_world"
    by (simp add: within_capacity_def sessions_ok_def cap_ok_def example_defs)
  have h2: "capacities_nonneg full_world"
    by (simp add: capacities_nonneg_def example_defs)
  note t = capacity_invariant [OF h1 h2, where rsid = "''c5''" and uid = None
      and session_id = "''s1''" and uname = "''erin''" and anon = True and usid = "Some ''t5''"
      and token = "''k4''" and draw = 4 and approval_id = "''k3''" and approved = True
      and evs = "[Join_session ''c5'' None ''s1'' ''erin'' True (Some ''t5'') ''k4'' 4,
         Join_approval_response ''s1'' ''k3'' True 3]"]
  have a4: "projects full_world ''s1'' = Some example_project \<and> active example_project
      \<and> max_users example_project \<le> int (length (users (session_of (active_sessions full_world) ''s1'')))
      \<and> find (\<lambda>a. get_sessionId a = Some ''t5'' \<and> a_type a = ''join'')
            (pending_approvals (session_of (active_sessions full_world) ''s1'')) = None
      \<and> find (\<lambda>x. sessionId x = Some ''t5'') (users (session_of (active_sessions full_world) ''s1'')) = None"
    by (simp add: example_defs session_of_def)
  have a5: "map_of (active_sessions full_world) ''s1'' =
        Some \<lparr>users = [alice, bob, carol],
              pending_approvals = [Join ''k3'' ''dave'' True (Some ''t4'') ''c4'']\<rparr>
      \<and> find (\<lambda>a. a_id a = ''k3'' \<and> a_type a = ''join'')
           (pending_approvals \<lparr>users = [alice, bob, carol],
              pending_approvals = [Join ''k3'' ''dave'' True (Some ''t4'') ''c4'']\<rparr>)
          = Some (Join ''k3'' ''dave'' True (Some ''t4'') ''c4'')
      \<and> projects full_world ''s1'' = Some example_project
      \<and> max_users example_project \<le> int (length (users \<lparr>users = [alice, bob, carol],
              pending_approvals = [Join ''k3'' ''dave'' True (Some ''t4'') ''c4'']\<rparr>))"
    by (simp add: example_defs)
  have e: "ensure_session ''s1'' (active_sessions full_world) = active_sessions full_world"
    by (simp add: example_defs ensure_session_def)
  from t a4 have c4: "handle_join_session full_world ''c5'' None ''s1'' ''erin'' True (Some ''t5'') ''k4'' 4 =
       (full_world\<lparr>active_sessions := ensure_session ''s1'' (active_sessions full_world)\<rparr>,
        [emit (Error ''Session is full'') ''c5''])"
    by blast
  from t a5 have c5: "handle_join_approval_response full_world ''s1'' ''k3'' True 4 =
       Inr (full_world\<lparr>active_sessions := AList.update ''s1''
              (\<lparr>users = [alice, bob, carol],
                pending_approvals = [Join ''k3'' ''dave'' True (Some ''t4'') ''c4'']\<rparr>
               \<lparr>pending_approvals := filter (\<lambda>a. a_id a \<noteq> ''k3'')
                  (pending_approvals \<lparr>users = [alice, bob, carol],
                     pending_approvals = [Join ''k3'' ''dave'' True (Some ''t4'') ''c4'']\<rparr>)\<rparr>)
              (active_sessions full_world)\<rparr>,
            [emit (Error ''Session is full'') ''c4''])"
    by blast
  from t have r: "within_capacity (run full_world
        [Join_session ''c5'' None ''s1'' ''erin'' True (Some ''t5'') ''k4'' 4,
         Join_approval_response ''s1'' ''k3'' True 3])"
    by blast
  have c4': "handle_join_session full_world ''c5'' None ''s1'' ''erin'' True (Some ''t5'') ''k4'' 4 =
       (full_world, [emit (Error ''Session is full'') ''c5''])"
    using c4 by (simp add: e)
  have c5': "handle_join_approval_response full_world ''s1'' ''k3'' True 4 =
       Inr (full_world\<lparr>active_sessions :=
              [(''s1'', \<lparr>users = [alice, bob, carol], pending_approvals = []\<rparr>)]\<rparr>,
            [emit (Error ''Session is full'') ''c4''])"
    using c5 by (simp add: example_defs)
  show ?thesis
    using h1 h2 r c4' c5' by simp
qed

section \<open>Resolving approvals\<close>

text \<open>
  Claim C10. \<^verbatim>\<open>handle_approval_response\<close> (the write-resolution handler) finds the
  pending approval by id alone. When the session holds a \<^verbatim>\<open>'join'\<close> approval with the
  given id (ids being unique in the pending list), the handler removes that entry and its
  only emission is the room-wide \<^verbatim>\<open>approval_result\<close>: nothing is sent to the
  connection that asked to join.
\<close>

theorem resolve_write_takes_join_approval:
  assumes "map_of (active_sessions w) session_id = Some sd"
    and "Join approval_id n an si s \<in> set (pending_approvals sd)"
    and "distinct (map a_id (pending_approvals sd))"
  shows "handle_approval_response w rsid session_id approval_id approved =
      Inr (w\<lparr>active_sessions := AList.update session_id
               (sd\<lparr>pending_approvals := filter (\<lambda>a. a_id a \<noteq> approval_id) (pending_approvals sd)\<rparr>)
               (active_sessions w)\<rparr>,
           [emit (Approval_result approval_id approved) session_id])
    \<and> Join approval_id n an si s \<notin> set (filter (\<lambda>a. a_id a \<noteq> approval_id) (pending_approvals sd))"
proof -
  have "find (\<lambda>a. a_id a = a_id (Join approval_id n an si s)) (pending_approvals sd)
          = Some (Join approval_id n an si s)"
    by (rule find_distinct_map [OF assms(3) assms(2)])
  then show ?thesis
    using assms(1) by (simp add: handle_approval_response_def)
qed

theorem resolve_write_takes_join_approval_witness:
  "map_of (active_sessions pending_world) ''s1'' =
      Some \<lparr>users = [alice, bob], pending_approvals = [Join ''k2'' ''carol'' True (Some ''t3'') ''c3'']\<rparr>
   \<and> handle_approval_response pending_world ''c1'' ''s1'' ''k2'' True =
      Inr (example_world, [emit (Approval_result ''k2'' True) ''s1''])"
proof -
  have h1: "map_of (active_sessions pending_world) ''s1'' =
      Some \<lparr>users = [alice, bob], pending_approvals = [Join ''k2'' ''carol'' True (Some ''t3'') ''c3'']\<rparr>"
    by (simp add: example_defs)
  have h2: "Join ''k2'' ''carol'' True (Some ''t3'') ''c3'' \<in> set (pending_approvals
      \<lparr>users = [alice, bob], pending_approvals = [Join ''k2'' ''carol'' True (Some ''t3'') ''c3'']\<rparr>)"
    by simp
  have h3: "distinct (map a_id (pending_approvals
      \<lparr>users = [alice, bob], pending_approvals = [Join ''k2'' ''carol'' True (Some ''t3'') ''c3'']\<rparr>))"
    by simp
  show ?thesis
    using resolve_write_takes_join_approval [OF h1 h2 h3, of "''c1''" True] h1
    by (simp add: example_defs)
qed

text \<open>
  Claim C5. A \<^verbatim>\<open>'join'\<close> approval is resolved at most once: whenever
  \<^verbatim>\<open>handle_join_approval_response\<close> has returned, a second call with the same approval
  id (whatever the decision) emits nothing and leaves the state as it is.
\<close>

theorem resolve_join_twice_is_noop:
  assumes "handle_join_approval_response w session_id approval_id approved draw = Inr (w', out)"
  shows "handle_join_approval_response w' session_id approval_id approved' draw' = Inr (w', [])"
  using assms
  by (auto simp: handle_join_approval_response_def Let_def map_of_update_same find_filter_neq_None
      split: option.splits approval.splits if_splits)

theorem resolve_join_twice_is_noop_witness:
  "handle_join_approval_response pending_world ''s1'' ''k2'' True 2 =
     Inr (example_world\<lparr>active_sessions := [(''s1'', \<lparr>users = [alice, bob, carol], pending_approvals = []\<rparr>)],
            rooms := [(''s1'', ''c3''), (''s1'', ''c2''), (''s1_admin'', ''c1''), (''s1'', ''c1'')]\<rparr>,
          [emit (Join_approved carol) ''c3'',
           emit (Session_state [alice, bob, carol]) ''c3'',
           emit (User_joined ''carol'' ''#45B7D1'' carol [alice, bob, carol]) ''s1''])
   \<and> handle_join_approval_response
       (example_world\<lparr>active_sessions := [(''s1'', \<lparr>users = [alice, bob, carol], pending_approvals = []\<rparr>)],
            rooms := [(''s1'', ''c3''), (''s1'', ''c2''), (''s1_admin'', ''c1''), (''s1'', ''c1'')]\<rparr>)
       ''s1'' ''k2'' False 7 =
     Inr (example_world\<lparr>active_sessions := [(''s1'', \<lparr>users = [alice, bob, carol], pending_approvals = []\<rparr>)],
            rooms := [(''s1'', ''c3''), (''s1'', ''c2''), (''s1_admin'', ''c1''), (''s1'', ''c1'')]\<rparr>, [])"
proof -
  have h: "handle_join_approval_response pending_world ''s1'' ''k2'' True 2 =
     Inr (example_world\<lparr>active_sessions := [(''s1'', \<lparr>users = [alice, bob, carol], pending_approvals = []\<rparr>)],
            rooms := [(''s1'', ''c3''), (''s1'', ''c2''), (''s1_admin'', ''c1''), (''s1'', ''c1'')]\<rparr>,
          [emit (Join_approved carol) ''c3'',
           emit (Session_state [alice, bob, carol]) ''c3'',
           emit (User_joined ''carol'' ''#45B7D1'' carol [alice, bob, carol]) ''s1''])"
    by (simp add: handle_join_approval_response_def example_defs eval_defs)
  show ?thesis
    using resolve_join_twice_is_noop [OF h, of False 7] h by simp
qed

section \<open>Outstanding join approvals\<close>

lemma pji_users [simp]: "pending_join_identities (sd\<lparr>users := us\<rparr>) = pending_join_identities sd"
  by (simp add: pending_join_identities_def)

lemma pji_new [simp]: "pending_join_identities new_session = []"
  by (simp add: pending_join_identities_def new_session_def)

lemma distinct_map_filter_filter:
  "distinct (map f (filter Q xs)) \<Longrightarrow> distinct (map f (filter (\<lambda>x. g x \<and> Q x) xs))"
  by (induction xs) (auto split: if_splits)

lemma pji_filter:
  "distinct (pending_join_identities sd) \<Longrightarrow>
   distinct (pending_join_identities (sd\<lparr>pending_approvals := filter g (pending_approvals sd)\<rparr>))"
  by (simp add: pending_join_identities_def distinct_map_filter_filter)

lemma set_sid_type [simp]: "a_type (set_sid c a) = a_type a"
  by (cases a) simp_all

lemma set_sid_sessionId [simp]: "get_sessionId (set_sid c a) = get_sessionId a"
  by (cases a) simp_all

lemma set_sid_id [simp]: "a_id (set_sid c a) = a_id a"
  by (cases a) simp_all

lemma map_filter_update_first:
  "(\<And>x. f (g x) = f x) \<Longrightarrow> (\<And>x. Q (g x) = Q x) \<Longrightarrow>
     map f (filter Q (update_first P g xs)) = map f (filter Q xs)"
  by (induction xs) auto

lemma map_update_first: "(\<And>x. f (g x) = f x) \<Longrightarrow> map f (update_first P g xs) = map f xs"
  by (induction xs) auto

lemma pji_update_first [simp]:
  "pending_join_identities (sd\<lparr>pending_approvals := update_first P (set_sid c) (pending_approvals sd)\<rparr>)
     = pending_join_identities sd"
  by (simp add: pending_join_identities_def map_filter_update_first)

lemma pji_append_save [simp]:
  "pending_join_identities (sd\<lparr>pending_approvals := pending_approvals sd @ [Save i p c u]\<rparr>)
     = pending_join_identities sd"
  by (simp add: pending_join_identities_def)

lemma pji_append_join:
  assumes "find (\<lambda>a. get_sessionId a = usid \<and> a_type a = ''join'') (pending_approvals sd) = None"
    and "distinct (pending_join_identities sd)"
  shows "distinct (pending_join_identities
           (sd\<lparr>pending_approvals := pending_approvals sd @ [Join t n an usid c]\<rparr>))"
  using assms by (auto simp: pending_join_identities_def find_None_iff)

lemma join_one_pending:
  assumes inv: "one_pending_join w"
  shows "one_pending_join (fst (handle_join_session w rsid uid session_id uname anon usid token draw))"
proof -
  let ?P = "\<lambda>k sd. distinct (pending_join_identities sd)"
  let ?ss = "ensure_session session_id (active_sessions w)"
  let ?sd = "session_of (active_sessions w) session_id"
  have all: "sessions_ok ?P (active_sessions w)"
    using inv by (simp add: one_pending_join_def)
  have ss: "sessions_ok ?P ?ss"
    by (rule sessions_ok_ensure [OF all]) simp
  have sd: "distinct (pending_join_identities ?sd)"
    by (rule sessions_ok_session_of [OF all]) simp
  have upd: "\<And>sd'. distinct (pending_join_identities sd') \<Longrightarrow>
      sessions_ok ?P (AList.update session_id sd' ?ss)"
    by (rule sessions_ok_update [OF ss])
  show ?thesis
    unfolding one_pending_join_def
    using all ss sd
    by (simp add: handle_join_session_def Let_def upd pji_append_join split: option.splits)
qed

lemma one_pending_map_of_handlers:
  assumes inv: "one_pending_join w"
  shows "\<And>w' out r. save_file w uid session_id path content user_info token = Inr (w', out, r)
            \<Longrightarrow> one_pending_join w'"
    and "\<And>w' out r. kick_user w uid session_id target = (w', out, r) \<Longrightarrow> one_pending_join w'"
    and "\<And>w' out r. close_session w uid session_id = (w', out, r) \<Longrightarrow> one_pending_join w'"
    and "\<And>w' out. handle_join_approval_response w session_id approval_id approved draw = Inr (w', out)
            \<Longrightarrow> one_pending_join w'"
    and "one_pending_join (fst (handle_leave_session w rsid session_id))"
    and "one_pending_join (fst (handle_file_open w rsid session_id file_path))"
    and "\<And>w' out. handle_approval_response w rsid session_id approval_id approved = Inr (w', out)
            \<Longrightarrow> one_pending_join w'"
    and "one_pending_join (fst (handle_disconnect w rsid))"
proof -
  let ?P = "\<lambda>k sd. distinct (pending_join_identities sd)"
  have all: "sessions_ok ?P (active_sessions w)"
    using inv by (simp add: one_pending_join_def)
  have ss: "sessions_ok ?P (ensure_session session_id (active_sessions w))"
    by (rule sessions_ok_ensure [OF all]) simp
  have sd0: "distinct (pending_join_identities (session_of (active_sessions w) session_id))"
    by (rule sessions_ok_session_of [OF all]) simp
  have upd0: "\<And>sd'. distinct (pending_join_identities sd') \<Longrightarrow>
      sessions_ok ?P (AList.update session_id sd' (ensure_session session_id (active_sessions w)))"
    by (rule sessions_ok_update [OF ss])
  have sd: "\<And>sd. map_of (active_sessions w) session_id = Some sd \<Longrightarrow>
      distinct (pending_join_identities sd)"
    by (rule sessions_ok_map_of [OF all])
  have upd: "\<And>sd'. distinct (pending_join_identities sd') \<Longrightarrow>
      sessions_ok ?P (AList.update session_id sd' (active_sessions w))"
    by (rule sessions_ok_update [OF all])
  have flt: "\<And>sd g us. map_of (active_sessions w) session_id = Some sd \<Longrightarrow>
      distinct (pending_join_identities
        (sd\<lparr>users := us, pending_approvals := filter g (pending_approvals sd)\<rparr>))"
    using pji_filter [OF sd] by (simp add: pending_join_identities_def)
  have flt': "\<And>sd g. map_of (active_sessions w) session_id = Some sd \<Longrightarrow>
      distinct (pending_join_identities
        (sd\<lparr>pending_approvals := filter g (pending_approvals sd)\<rparr>))"
    by (rule pji_filter [OF sd])
  show "\<And>w' out r. save_file w uid session_id path content user_info token = Inr (w', out, r)
            \<Longrightarrow> one_pending_join w'"
    using all
    by (auto simp: save_file_def Let_def one_pending_join_def sd0 upd0
        split: option.splits if_splits)
  show "\<And>w' out r. kick_user w uid session_id target = (w', out, r) \<Longrightarrow> one_pending_join w'"
    using all
    by (auto simp: kick_user_def Let_def one_pending_join_def sd upd
        split: option.splits if_splits)
  show "\<And>w' out r. close_session w uid session_id = (w', out, r) \<Longrightarrow> one_pending_join w'"
    using all
    by (auto simp: close_session_def one_pending_join_def split: option.splits if_splits)
  show "\<And>w' out. handle_join_approval_response w session_id approval_id approved draw = Inr (w', out)
            \<Longrightarrow> one_pending_join w'"
    using all
    by (auto simp: handle_join_approval_response_def Let_def one_pending_join_def upd flt flt'
        split: option.splits if_splits approval.splits)
  show "one_pending_join (fst (handle_leave_session w rsid session_id))"
    using all
    by (simp add: handle_leave_session_def one_pending_join_def sd upd split: option.splits)
  show "one_pending_join (fst (handle_file_open w rsid session_id file_path))"
    using all
    by (simp add: handle_file_open_def one_pending_join_def sd upd split: option.splits)
  show "\<And>w' out. handle_approval_response w rsid session_id approval_id approved = Inr (w', out)
            \<Longrightarrow> one_pending_join w'"
    using all
    by (auto simp: handle_approval_response_def Let_def one_pending_join_def upd flt flt'
        split: option.splits if_splits approval.splits)
  have "sessions_ok ?P (fst (disconnect_loop rsid (active_sessions w)))"
    using all by (rule sessions_ok_disconnect_loop) (simp_all add: pji_filter)
  then show "one_pending_join (fst (handle_disconnect w rsid))"
    by (simp add: handle_disconnect_def one_pending_join_def split_beta)
qed

lemma step_one_pending:
  assumes "one_pending_join w"
  shows "one_pending_join (step w ev)"
proof (cases ev)
  case (Join_session rsid uid session_id uname anon usid token draw)
  then show ?thesis using join_one_pending [OF assms] by simp
next
  case (Disconnect rsid)
  then show ?thesis
    using one_pending_map_of_handlers(8) [OF assms, of rsid]
    by (simp add: one_pending_join_def Let_def)
next
  case (Cursor_move rsid session_id position fl)
  then show ?thesis
    using assms by (simp add: handle_cursor_move_def split: option.splits)
next
  case (File_change rsid session_id changes fl version)
  then show ?thesis
    using assms by (simp add: handle_file_change_def)
next
  case (Chat session_id uname given_color message now)
  then show ?thesis
    using assms by (simp add: handle_chat_message_def Let_def)
qed (use assms one_pending_map_of_handlers [OF assms] in \<open>auto split: sum.splits prod.splits\<close>)

lemma run_one_pending: "one_pending_join w \<Longrightarrow> one_pending_join (run w evs)"
  unfolding run_def by (induction evs arbitrary: w) (simp_all add: step_one_pending)

lemma repeat_join_request:
  assumes "projects w session_id = Some p" and "active p"
    and "find (\<lambda>a. get_sessionId a = usid \<and> a_type a = ''join'')
           (pending_approvals (session_of (active_sessions w) session_id)) = Some a"
  shows "handle_join_session w rsid uid session_id uname anon usid token draw =
     (w\<lparr>active_sessions := AList.update session_id
           (session_of (active_sessions w) session_id
              \<lparr>pending_approvals := update_first (\<lambda>a. get_sessionId a = usid \<and> a_type a = ''join'')
                 (set_sid rsid) (pending_approvals (session_of (active_sessions w) session_id))\<rparr>)
           (ensure_session session_id (active_sessions w))\<rparr>,
      [emit Waiting_approval rsid])"
  using assms by (simp add: handle_join_session_def Let_def)

text \<open>
  Claim C8. A session never holds two outstanding \<^verbatim>\<open>'join'\<close> approvals for the same
  stable identity: the property survives every run of inbound operations. A join request
  from an identity that already has a pending \<^verbatim>\<open>'join'\<close> approval (in an open session)
  rewrites the connection id of that approval in place: the pending list keeps its length
  and its approval ids, the roster is untouched, and the only emission is the
  \<^verbatim>\<open>waiting_approval\<close> notice to the caller, so the admin room is not notified again.
\<close>

theorem one_pending_join_per_identity:
  assumes "one_pending_join w"
  shows "one_pending_join (run w evs)
    \<and> (\<forall>p a. projects w session_id = Some p \<and> active p
          \<and> find (\<lambda>a. get_sessionId a = usid \<and> a_type a = ''join'')
               (pending_approvals (session_of (active_sessions w) session_id)) = Some a
        \<longrightarrow> (let sd = session_of (active_sessions w) session_id;
                 r = handle_join_session w rsid uid session_id uname anon usid token draw;
                 sd' = session_of (active_sessions (fst r)) session_id
             in snd r = [emit Waiting_approval rsid]
              \<and> pending_approvals sd' =
                  update_first (\<lambda>a. get_sessionId a = usid \<and> a_type a = ''join'')
                    (set_sid rsid) (pending_approvals sd)
              \<and> length (pending_approvals sd') = length (pending_approvals sd)
              \<and> map a_id (pending_approvals sd') = map a_id (pending_approvals sd)
              \<and> pending_join_identities sd' = pending_join_identities sd
              \<and> users sd' = users sd))"
proof (intro conjI allI impI)
  show "one_pending_join (run w evs)"
    by (rule run_one_pending [OF assms])
next
  fix p a
  assume "projects w session_id = Some p \<and> active p
          \<and> find (\<lambda>a. get_sessionId a = usid \<and> a_type a = ''join'')
               (pending_approvals (session_of (active_sessions w) session_id)) = Some a"
  then have "handle_join_session w rsid uid session_id uname anon usid token draw =
     (w\<lparr>active_sessions := AList.update session_id
           (session_of (active_sessions w) session_id
              \<lparr>pending_approvals := update_first (\<lambda>a. get_sessionId a = usid \<and> a_type a = ''join'')
                 (set_sid rsid) (pending_approvals (session_of (active_sessions w) session_id))\<rparr>)
           (ensure_session session_id (active_sessions w))\<rparr>,
      [emit Waiting_approval rsid])"
    by (elim conjE) (rule repeat_join_request, assumption+)
  then show "let sd = session_of (active_sessions w) session_id;
                 r = handle_join_session w rsid uid session_id uname anon usid token draw;
                 sd' = session_of (active_sessions (fst r)) session_id
             in snd r = [emit Waiting_approval rsid]
              \<and> pending_approvals sd' =
                  update_first (\<lambda>a. get_sessionId a = usid \<and> a_type a = ''join'')
                    (set_sid rsid) (pending_approvals sd)
              \<and> length (pending_approvals sd') = length (pending_approvals sd)
              \<and> map a_id (pending_approvals sd') = map a_id (pending_approvals sd)
              \<and> pending_join_identities sd' = pending_join_identities sd
              \<and> users sd' = users sd"
    by (simp add: Let_def map_update_first)
qed

theorem one_pending_join_per_identity_witness:
  "one_pending_join pending_world
   \<and> one_pending_join (run pending_world
        [Join_session ''c7'' None ''s1'' ''carol'' True (Some ''t3'') ''k5'' 5,
         Join_approval_response ''s1'' ''k2'' True 2])
   \<and> handle_join_session pending_world ''c7'' None ''s1'' ''carol'' True (Some ''t3'') ''k5'' 5 =
       (pending_world\<lparr>active_sessions :=
          [(''s1'', \<lparr>users = [alice, bob],
                    pending_approvals = [Join ''k2'' ''carol'' True (Some ''t3'') ''c7'']\<rparr>)]\<rparr>,
        [emit Waiting_approval ''c7''])"
proof -
  have h: "one_pending_join pending_world"
    by (simp add: one_pending_join_def sessions_ok_def pending_join_identities_def example_defs)
  note t = one_pending_join_per_identity [OF h, where session_id = "''s1''"
      and usid = "Some ''t3''" and rsid = "''c7''" and uid = None and uname = "''carol''"
      and anon = True and token = "''k5''" and draw = 5
      and evs = "[Join_session ''c7'' None ''s1'' ''carol'' True (Some ''t3'') ''k5'' 5,
         Join_approval_response ''s1'' ''k2'' True 2]"]
  have a: "projects pending_world ''s1'' = Some example_project \<and> active example_project
      \<and> find (\<lambda>a. get_sessionId a = Some ''t3'' \<and> a_type a = ''join'')
           (pending_approvals (session_of (active_sessions pending_world) ''s1''))
          = Some (Join ''k2'' ''carol'' True (Some ''t3'') ''c3'')"
    by (simp add: example_defs session_of_def)
  from t a have out: "snd (handle_join_session pending_world ''c7'' None ''s1'' ''carol'' True
      (Some ''t3'') ''k5'' 5) = [emit Waiting_approval ''c7'']"
    unfolding Let_def by blast
  have st: "fst (handle_join_session pending_world ''c7'' None ''s1'' ''carol'' True
      (Some ''t3'') ''k5'' 5) = pending_world\<lparr>active_sessions :=
          [(''s1'', \<lparr>users = [alice, bob],
                    pending_approvals = [Join ''k2'' ''carol'' True (Some ''t3'') ''c7'']\<rparr>)]\<rparr>"
    by (simp add: handle_join_session_def example_defs eval_defs)
  from t have r: "one_pending_join (run pending_world
        [Join_session ''c7'' None ''s1'' ''carol'' True (Some ''t3'') ''k5'' 5,
         Join_approval_response ''s1'' ''k2'' True 2])"
    by blast
  show ?thesis
    using h r out st by (simp add: prod_eq_iff)
qed

section \<open>Write resolution on an unconfined path\<close>

text \<open>
  Claim C1, at a failing input. A non-admin asks to save \<^verbatim>\<open>../outside.txt\<close>, which
  \<^verbatim>\<open>save_file\<close> queues without checking the path. When the admin approves,
  \<^verbatim>\<open>handle_approval_response\<close> finds the path outside the workspace, sends
  \<^verbatim>\<open>Invalid path\<close> to the admin's connection and returns: the approval stays in the
  pending list and no \<^verbatim>\<open>approval_result\<close> is emitted.
\<close>

theorem resolve_write_unsafe_path_keeps_pending:
  "save_file example_world None ''s1'' ''../outside.txt'' ''x=1'' ''bob'' ''a1'' =
     Inr (example_world\<lparr>active_sessions :=
            [(''s1'', \<lparr>users = [alice, bob],
                      pending_approvals = [Save ''a1'' ''../outside.txt'' ''x=1'' ''bob'']\<rparr>)]\<rparr>,
          [emit (Approval_request ''a1'' ''../outside.txt'' ''bob'') ''s1_admin''],
          Reply 200 ''pending_approval'')
   \<and> handle_approval_response
       (example_world\<lparr>active_sessions :=
            [(''s1'', \<lparr>users = [alice, bob],
                      pending_approvals = [Save ''a1'' ''../outside.txt'' ''x=1'' ''bob'']\<rparr>)]\<rparr>)
       ''c1'' ''s1'' ''a1'' True =
     Inr (example_world\<lparr>active_sessions :=
            [(''s1'', \<lparr>users = [alice, bob],
                      pending_approvals = [Save ''a1'' ''../outside.txt'' ''x=1'' ''bob'']\<rparr>)]\<rparr>,
          [emit (Error ''Invalid path'') ''c1''])"
  by (simp add: save_file_def handle_approval_response_def example_defs eval_defs
      is_safe_path_def abspath_def path_join_def isabs_def normpath_def)

section \<open>Disconnection\<close>

text \<open>
  Claim C2, at a failing input. A connection that is a participant of a session and also the
  requester of a pending \<^verbatim>\<open>'join'\<close> approval disconnects: \<^verbatim>\<open>handle_disconnect\<close>
  removes the participant and leaves the loop, and the approval with the closed
  connection id stays in the pending list.
\<close>

theorem disconnect_keeps_pending_of_participant:
  "handle_join_session example_world ''c2'' None ''s1'' ''bob2'' True (Some ''t9'') ''k9'' 2 =
     (example_world\<lparr>active_sessions :=
        [(''s1'', \<lparr>users = [alice, bob],
                  pending_approvals = [Join ''k9'' ''bob2'' True (Some ''t9'') ''c2'']\<rparr>)]\<rparr>,
      [emit (Join_approval_request ''k9'' ''bob2'') ''s1_admin'', emit Waiting_approval ''c2''])
   \<and> handle_disconnect
       (example_world\<lparr>active_sessions :=
        [(''s1'', \<lparr>users = [alice, bob],
                  pending_approvals = [Join ''k9'' ''bob2'' True (Some ''t9'') ''c2'']\<rparr>)]\<rparr>)
       ''c2'' =
     (example_world\<lparr>active_sessions :=
        [(''s1'', \<lparr>users = [alice],
                  pending_approvals = [Join ''k9'' ''bob2'' True (Some ''t9'') ''c2'']\<rparr>)]\<rparr>,
      [emit_others (User_left ''c2'' ''bob'') ''s1'' ''c2''])"
  by (simp add: handle_join_session_def handle_disconnect_def example_defs eval_defs)

text \<open>
  When the closed connection is a participant of no session, the loop visits every session
  and no pending approval of that connection is left.
\<close>

lemma disconnect_loop_purges:
  assumes "\<forall>(k, sd) \<in> set ss. find (\<lambda>x. sid x = c) (users sd) = None"
  shows "\<forall>(k, sd) \<in> set (fst (disconnect_loop c ss)).
           \<forall>a \<in> set (pending_approvals sd). get_sid a \<noteq> Some c"
  using assms by (induction ss) (auto simp: split_beta)

section \<open>Reconnection\<close>

lemma update_first_found:
  "find P xs = Some u \<Longrightarrow> update_first P (\<lambda>x. g u) xs = update_first P g xs"
  by (induction xs) (auto split: if_splits)

text \<open>
  Claim C7 as stated fails: a participant admitted as a non-admin reconnects (same
  \<^verbatim>\<open>sessionId\<close>, new connection) while the HTTP session is logged in as the account
  that owns the project, and the reconnection branch sets \<^verbatim>\<open>is_admin\<close> to
  \<^verbatim>\<open>True\<close>.
\<close>

theorem reconnect_promotes_to_admin_counterexample:
  "map is_admin (users (session_of (active_sessions example_world) ''s1'')) = [True, False]
   \<and> map is_admin (users (session_of (active_sessions
        (fst (handle_join_session example_world ''c5'' (Some 1) ''s1'' ''bob'' True (Some ''t2'')
               ''k2'' 2))) ''s1'')) = [True, True]"
  by (simp add: handle_join_session_def example_defs eval_defs)

text \<open>
  Claim C7, amended. When the roster holds a participant with the caller's stable identity,
  \<^verbatim>\<open>handle_join_session\<close> never changes the length of the roster nor any
  participant's colour, name, stable identity, current file or anonymity flag;
  \<^verbatim>\<open>is_admin\<close> is unchanged unless the caller is logged in as the project's admin;
  and in an open session with no pending join approval of that identity the roster is the
  old one with the connection id of the first participant of that identity rewritten in
  place (and \<^verbatim>\<open>is_admin\<close> set when the caller is the project's admin).
\<close>

theorem reconnect_keeps_roster:
  assumes "find (\<lambda>x. sessionId x = usid) (users (session_of (active_sessions w) session_id)) = Some u"
  shows "let us = users (session_of (active_sessions w) session_id);
             us' = users (session_of (active_sessions
                     (fst (handle_join_session w rsid uid session_id uname anon usid token draw)))
                     session_id)
         in length us' = length us
          \<and> map color us' = map color us
          \<and> map username us' = map username us
          \<and> map sessionId us' = map sessionId us
          \<and> map current_file us' = map current_file us
          \<and> map is_anonymous us' = map is_anonymous us
          \<and> ((\<forall>p. projects w session_id = Some p \<longrightarrow> \<not> is_user_admin uid p)
                \<longrightarrow> map is_admin us' = map is_admin us)
          \<and> (\<forall>p. projects w session_id = Some p \<and> active p
                \<and> find (\<lambda>a. get_sessionId a = usid \<and> a_type a = ''join'')
                     (pending_approvals (session_of (active_sessions w) session_id)) = None
                \<longrightarrow> us' = update_first (\<lambda>x. sessionId x = usid)
                         (\<lambda>x. if is_user_admin uid p then x\<lparr>sid := rsid, is_admin := True\<rparr>
                              else x\<lparr>sid := rsid\<rparr>) us)"
proof (cases "projects w session_id")
  case None
  then show ?thesis by (simp add: handle_join_session_def Let_def)
next
  case (Some p)
  show ?thesis
  proof (cases "active p")
    case False
    with Some show ?thesis by (simp add: handle_join_session_def Let_def)
  next
    case True
    show ?thesis
    proof (cases "find (\<lambda>a. get_sessionId a = usid \<and> a_type a = ''join'')
                     (pending_approvals (session_of (active_sessions w) session_id))")
      case (Some a)
      with \<open>projects w session_id = Some p\<close> True show ?thesis
        by (simp add: handle_join_session_def Let_def)
    next
      case None
      note uf = update_first_found [OF assms, of "\<lambda>x. x\<lparr>sid := rsid, is_admin := True\<rparr>"]
        update_first_found [OF assms, of "\<lambda>x. x\<lparr>sid := rsid\<rparr>"]
      from None \<open>projects w session_id = Some p\<close> True assms show ?thesis
        by (simp add: handle_join_session_def Let_def uf map_update_first)
    qed
  qed
qed

theorem reconnect_keeps_roster_witness:
  "find (\<lambda>x. sessionId x = Some ''t2'') (users (session_of (active_sessions example_world) ''s1''))
      = Some bob
   \<and> users (session_of (active_sessions
        (fst (handle_join_session example_world ''c5'' None ''s1'' ''bob'' True (Some ''t2'')
               ''k2'' 2))) ''s1'') = [alice, bob\<lparr>sid := ''c5''\<rparr>]"
proof -
  have h: "find (\<lambda>x. sessionId x = Some ''t2'')
      (users (session_of (active_sessions example_world) ''s1'')) = Some bob"
    by (simp add: example_defs session_of_def)
  have a: "projects example_world ''s1'' = Some example_project \<and> active example_project
      \<and> find (\<lambda>a. get_sessionId a = Some ''t2'' \<and> a_type a = ''join'')
           (pending_approvals (session_of (active_sessions example_world) ''s1'')) = None"
    by (simp add: example_defs session_of_def)
  have u: "update_first (\<lambda>x. sessionId x = Some ''t2'')
             (\<lambda>x. if is_user_admin None example_project then x\<lparr>sid := ''c5'', is_admin := True\<rparr>
                  else x\<lparr>sid := ''c5''\<rparr>)
             (users (session_of (active_sessions example_world) ''s1'')) = [alice, bob\<lparr>sid := ''c5''\<rparr>]"
    by (simp add: example_defs session_of_def is_user_admin_def)
  from reconnect_keeps_roster [OF h, of "''c5''" None "''bob''" True "''k2''" 2] a
  have "users (session_of (active_sessions
        (fst (handle_join_session example_world ''c5'' None ''s1'' ''bob'' True (Some ''t2'')
               ''k2'' 2))) ''s1'') = update_first (\<lambda>x. sessionId x = Some ''t2'')
             (\<lambda>x. if is_user_admin None example_project then x\<lparr>sid := ''c5'', is_admin := True\<rparr>
                  else x\<lparr>sid := ''c5''\<rparr>)
             (users (session_of (active_sessions example_world) ''s1''))"
    unfolding Let_def by blast
  with h u show ?thesis by simp
qed

section \<open>Sender inclusion of broadcasts\<close>

lemma pir_iff:
  "participants_in_room w c \<longleftrightarrow>
     distinct (map fst (active_sessions w))
     \<and> (\<forall>k sd. map_of (active_sessions w) k = Some sd \<longrightarrow> c \<in> sid ` set (users sd)
            \<longrightarrow> (k, c) \<in> set (rooms w))"
  by (auto simp: participants_in_room_def sessions_ok_def dest: map_of_SomeD)

lemma distinct_ensure_session [simp]:
  "distinct (map fst (ensure_session k ss)) = distinct (map fst ss)"
  by (auto simp: ensure_session_def map_of_eq_None_iff split: option.splits)

lemma map_of_ensure_session:
  "map_of (ensure_session k ss) k' =
     (if k' = k \<and> map_of ss k = None then Some new_session else map_of ss k')"
  by (auto simp: ensure_session_def map_add_def simp del: map_of_eq_None_iff split: option.splits)

lemma set_update_first:
  "x \<in> set (update_first P f xs) \<Longrightarrow> x \<in> set xs \<or> (\<exists>y \<in> set xs. x = f y)"
  by (induction xs) (auto split: if_splits)

lemma sid_update_first_current_file [simp]:
  "sid ` set (update_first P (\<lambda>x. x\<lparr>current_file := v\<rparr>) xs) = sid ` set xs"
  by (induction xs) auto

lemma disconnect_loop_keys [simp]: "map fst (fst (disconnect_loop r ss)) = map fst ss"
  by (induction r ss rule: disconnect_loop.induct) (auto split: option.splits prod.splits)

lemma disconnect_loop_users:
  "map_of (fst (disconnect_loop r ss)) k = Some sd'
     \<Longrightarrow> \<exists>sd. map_of ss k = Some sd \<and> set (users sd') \<subseteq> set (users sd)"
  by (induction r ss rule: disconnect_loop.induct) (auto split: option.splits prod.splits if_splits)

lemma save_file_pir:
  "participants_in_room w c \<Longrightarrow> participants_in_room (step w (Save_file uid session_id path content user_info token)) c"
  unfolding pir_iff
  by (auto simp del: map_of_eq_Some_iff simp: save_file_def Let_def update_conv' distinct_update map_of_ensure_session
      session_of_def new_session_def split: option.splits if_splits)

lemma kick_user_pir:
  "participants_in_room w c \<Longrightarrow> participants_in_room (step w (Kick_user uid session_id target)) c"
  unfolding pir_iff
  by (auto simp del: map_of_eq_Some_iff simp: kick_user_def Let_def update_conv' distinct_update split: option.splits if_splits)

lemma close_session_pir:
  "participants_in_room w c \<Longrightarrow> participants_in_room (step w (Close_session uid session_id)) c"
  unfolding pir_iff
  by (auto simp del: map_of_eq_Some_iff simp: close_session_def split: option.splits if_splits)

lemma join_approval_pir:
  "participants_in_room w c \<Longrightarrow> participants_in_room (step w (Join_approval_response session_id approval_id approved draw)) c"
  unfolding pir_iff
  by (auto simp del: map_of_eq_Some_iff simp: handle_join_approval_response_def Let_def update_conv' distinct_update join_room_def
      split: option.splits if_splits approval.splits)

lemma leave_pir:
  "participants_in_room w c \<Longrightarrow> participants_in_room (step w (Leave_session rsid session_id)) c"
  unfolding pir_iff
  by (auto simp del: map_of_eq_Some_iff simp: handle_leave_session_def update_conv' distinct_update leave_room_def
      split: option.splits if_splits)

lemma file_open_pir:
  "participants_in_room w c \<Longrightarrow> participants_in_room (step w (File_open rsid session_id file_path)) c"
  unfolding pir_iff
  by (auto simp del: map_of_eq_Some_iff simp: handle_file_open_def update_conv' distinct_update split: option.splits if_splits)

lemma approval_pir:
  "participants_in_room w c \<Longrightarrow> participants_in_room (step w (Approval_response rsid session_id approval_id approved)) c"
  unfolding pir_iff
  by (auto simp del: map_of_eq_Some_iff simp: handle_approval_response_def Let_def update_conv' distinct_update
      split: option.splits if_splits approval.splits)

lemma disconnect_pir:
  "participants_in_room w c \<Longrightarrow> rsid \<noteq> c \<Longrightarrow> participants_in_room (step w (Disconnect rsid)) c"
  unfolding pir_iff
  by (fastforce simp del: map_of_eq_Some_iff simp: handle_disconnect_def Let_def split_beta
      dest!: disconnect_loop_users)

lemma join_pir:
  "participants_in_room w c \<Longrightarrow>
     participants_in_room (step w (Join_session rsid uid session_id uname anon usid token draw)) c"
  unfolding pir_iff
  by (auto simp del: map_of_eq_Some_iff
      simp: handle_join_session_def Let_def update_conv' distinct_update map_of_ensure_session
        session_of_def new_session_def join_room_def
      split: option.splits if_splits dest!: set_update_first)

lemma step_pir:
  assumes "participants_in_room w c" and "ev \<noteq> Disconnect c"
  shows "participants_in_room (step w ev) c"
proof (cases ev)
  case (Save_file uid session_id path content user_info token)
  then show ?thesis using assms(1) by (simp only: save_file_pir)
next
  case (Kick_user uid session_id target)
  then show ?thesis using assms(1) by (simp only: kick_user_pir)
next
  case (Close_session uid session_id)
  then show ?thesis using assms(1) by (simp only: close_session_pir)
next
  case (Join_session rsid uid session_id uname anon usid token draw)
  then show ?thesis using assms(1) by (simp only: join_pir)
next
  case (Join_approval_response session_id approval_id approved draw)
  then show ?thesis using assms(1) by (simp only: join_approval_pir)
next
  case (Leave_session rsid session_id)
  then show ?thesis using assms(1) by (simp only: leave_pir)
next
  case (Cursor_move rsid session_id position fl)
  then show ?thesis
    using assms(1) by (simp add: handle_cursor_move_def split: option.splits)
next
  case (File_change rsid session_id changes fl version)
  then show ?thesis using assms(1) by (simp add: handle_file_change_def)
next
  case (File_open rsid session_id file_path)
  then show ?thesis using assms(1) by (simp only: file_open_pir)
next
  case (Chat session_id uname given_color message now)
  then show ?thesis using assms(1) by (simp add: handle_chat_message_def Let_def)
next
  case (Approval_response rsid session_id approval_id approved)
  then show ?thesis using assms(1) by (simp only: approval_pir)
next
  case (Disconnect rsid)
  then show ?thesis using assms by (simp only: disconnect_pir inbound.inject simp_thms)
qed

lemma run_pir:
  "participants_in_room w c \<Longrightarrow> Disconnect c \<notin> set evs \<Longrightarrow> participants_in_room (run w evs) c"
  unfolding run_def
  by (induction evs arbitrary: w) (auto simp: step_pir)

lemma participant_in_room:
  assumes "participants_in_room w c"
    and "find (\<lambda>x. sid x = c) (users (session_of (active_sessions w) session_id)) = Some u"
  shows "(session_id, c) \<in> set (rooms w) \<and> map_of (active_sessions w) session_id \<noteq> None"
  using assms unfolding pir_iff
  by (auto simp del: map_of_eq_Some_iff simp: session_of_def new_session_def find_Some_iff
      split: option.splits)

text \<open>
  Claim C9. Let the connection \<open>c\<close> be a participant of the session after a run of inbound
  operations in which \<open>c\<close> has not disconnected, the run starting in a state where the
  participants are members of their rooms (such as a state with no session). Then
  \<^verbatim>\<open>handle_cursor_move\<close> emits one \<^verbatim>\<open>cursor_update\<close> to the session's room that is
  not delivered to \<open>c\<close> and is delivered to every other member of the room, and
  \<^verbatim>\<open>handle_file_open\<close> emits one \<^verbatim>\<open>user_file_change\<close> to the session's room that is
  delivered to \<open>c\<close> and to every member of the room, the room memberships being left as
  they are. In any state and for any room memberships, no emission of
  \<^verbatim>\<open>handle_cursor_move\<close> is delivered to the originating connection.
\<close>

theorem cursor_not_echoed_file_open_echoed:
  assumes "participants_in_room w c" and "Disconnect c \<notin> set evs"
    and "find (\<lambda>x. sid x = c) (users (session_of (active_sessions (run w evs)) session_id)) = Some u"
  shows "handle_cursor_move (run w evs) c session_id position fl =
       (run w evs,
        [emit_others (Cursor_update c position fl (color u) (username u)) session_id c])
   \<and> \<not> delivered (rooms (run w evs))
         (emit_others (Cursor_update c position fl (color u) (username u)) session_id c) c
   \<and> (\<forall>c'. (session_id, c') \<in> set (rooms (run w evs)) \<and> c' \<noteq> c \<longrightarrow>
         delivered (rooms (run w evs))
           (emit_others (Cursor_update c position fl (color u) (username u)) session_id c) c')
   \<and> snd (handle_file_open (run w evs) c session_id file_path) =
       [emit (User_file_change c file_path) session_id]
   \<and> rooms (fst (handle_file_open (run w evs) c session_id file_path)) = rooms (run w evs)
   \<and> delivered (rooms (run w evs)) (emit (User_file_change c file_path) session_id) c
   \<and> (\<forall>c'. (session_id, c') \<in> set (rooms (run w evs)) \<longrightarrow>
         delivered (rooms (run w evs)) (emit (User_file_change c file_path) session_id) c')
   \<and> (\<forall>e \<in> set (snd (handle_cursor_move v c session_id position fl)). \<not> delivered rms e c)"
proof -
  have inv: "participants_in_room (run w evs) c"
    using assms(1,2) by (rule run_pir)
  from participant_in_room [OF inv assms(3)]
  have mem: "(session_id, c) \<in> set (rooms (run w evs))"
    and some: "map_of (active_sessions (run w evs)) session_id \<noteq> None"
    by simp_all
  from some assms(3)
  have cm: "handle_cursor_move (run w evs) c session_id position fl =
       (run w evs,
        [emit_others (Cursor_update c position fl (color u) (username u)) session_id c])"
    by (auto simp: handle_cursor_move_def session_of_def)
  have fo: "snd (handle_file_open (run w evs) c session_id file_path) =
       [emit (User_file_change c file_path) session_id]
     \<and> rooms (fst (handle_file_open (run w evs) c session_id file_path)) = rooms (run w evs)"
    by (simp add: handle_file_open_def split: option.splits)
  have un: "\<forall>e \<in> set (snd (handle_cursor_move v c session_id position fl)). \<not> delivered rms e c"
    by (simp add: handle_cursor_move_def delivered_def emit_others_def split: option.splits)
  from mem cm fo un show ?thesis
    by (auto simp: delivered_def emit_def emit_others_def)
qed

theorem cursor_not_echoed_file_open_echoed_witness:
  "participants_in_room example_world ''c3''
   \<and> run example_world
        [Join_session ''c3'' None ''s1'' ''carol'' True (Some ''t3'') ''k2'' 2,
         Join_approval_response ''s1'' ''k2'' True 2] =
      example_world\<lparr>active_sessions :=
          [(''s1'', \<lparr>users = [alice, bob, carol], pending_approvals = []\<rparr>)],
        rooms := [(''s1'', ''c3''), (''s1'', ''c2''), (''s1_admin'', ''c1''), (''s1'', ''c1'')]\<rparr>
   \<and> handle_cursor_move
        (example_world\<lparr>active_sessions :=
          [(''s1'', \<lparr>users = [alice, bob, carol], pending_approvals = []\<rparr>)],
        rooms := [(''s1'', ''c3''), (''s1'', ''c2''), (''s1_admin'', ''c1''), (''s1'', ''c1'')]\<rparr>)
        ''c3'' ''s1'' ''3:14'' ''main.py'' =
       (example_world\<lparr>active_sessions :=
          [(''s1'', \<lparr>users = [alice, bob, carol], pending_approvals = []\<rparr>)],
        rooms := [(''s1'', ''c3''), (''s1'', ''c2''), (''s1_admin'', ''c1''), (''s1'', ''c1'')]\<rparr>,
        [emit_others (Cursor_update ''c3'' ''3:14'' ''main.py'' ''#45B7D1'' ''carol'') ''s1'' ''c3''])
   \<and> \<not> delivered [(''s1'', ''c3''), (''s1'', ''c2''), (''s1_admin'', ''c1''), (''s1'', ''c1'')]
         (emit_others (Cursor_update ''c3'' ''3:14'' ''main.py'' ''#45B7D1'' ''carol'') ''s1'' ''c3'')
         ''c3''
   \<and> delivered [(''s1'', ''c3''), (''s1'', ''c2''), (''s1_admin'', ''c1''), (''s1'', ''c1'')]
         (emit (User_file_change ''c3'' ''main.py'') ''s1'') ''c3''
   \<and> delivered [(''s1'', ''c3''), (''s1'', ''c2''), (''s1_admin'', ''c1''), (''s1'', ''c1'')]
         (emit (User_file_change ''c3'' ''main.py'') ''s1'') ''c2''"
proof -
  let ?evs = "[Join_session ''c3'' None ''s1'' ''carol'' True (Some ''t3'') ''k2'' 2,
         Join_approval_response ''s1'' ''k2'' True 2]"
  let ?W = "example_world\<lparr>active_sessions :=
          [(''s1'', \<lparr>users = [alice, bob, carol], pending_approvals = []\<rparr>)],
        rooms := [(''s1'', ''c3''), (''s1'', ''c2''), (''s1_admin'', ''c1''), (''s1'', ''c1'')]\<rparr>"
  have i: "participants_in_room example_world ''c3''"
    by (simp add: participants_in_room_def sessions_ok_def example_defs)
  have d: "Disconnect ''c3'' \<notin> set ?evs" by simp
  have j: "step example_world (Join_session ''c3'' None ''s1'' ''carol'' True (Some ''t3'') ''k2'' 2)
      = pending_world"
    by (simp add: handle_join_session_def example_defs eval_defs)
  have a: "step pending_world (Join_approval_response ''s1'' ''k2'' True 2) = ?W"
    by (simp add: handle_join_approval_response_def example_defs eval_defs)
  have r: "run example_world ?evs = ?W"
    by (simp only: run_def foldl.simps j a)
  have f: "find (\<lambda>x. sid x = ''c3'') (users (session_of (active_sessions (run example_world ?evs)) ''s1''))
      = Some carol"
    unfolding r by (simp add: session_of_def example_defs)
  note t = cursor_not_echoed_file_open_echoed [OF i d f, of "''3:14''" "''main.py''" "''main.py''",
      unfolded r]
  have m: "(''s1'', ''c2'') \<in> set (rooms ?W)" by simp
  from t have t1: "handle_cursor_move ?W ''c3'' ''s1'' ''3:14'' ''main.py'' =
       (?W, [emit_others (Cursor_update ''c3'' ''3:14'' ''main.py'' (color carol) (username carol))
               ''s1'' ''c3''])"
    by blast
  from t have t2: "\<not> delivered (rooms ?W)
         (emit_others (Cursor_update ''c3'' ''3:14'' ''main.py'' (color carol) (username carol))
            ''s1'' ''c3'') ''c3''"
    by blast
  from t have t3: "delivered (rooms ?W) (emit (User_file_change ''c3'' ''main.py'') ''s1'') ''c3''"
    by blast
  from t have "\<forall>c'. (''s1'', c') \<in> set (rooms ?W) \<longrightarrow>
         delivered (rooms ?W) (emit (User_file_change ''c3'' ''main.py'') ''s1'') c'"
    by blast
  with m have t4: "delivered (rooms ?W) (emit (User_file_change ''c3'' ''main.py'') ''s1'') ''c2''"
    by blast
  show ?thesis
    using i r t1 t2 t3 t4 by (simp add: carol_def)
qed


section \<open>Closed sessions\<close>

lemma is_user_admin_inactive [simp]: "is_user_admin uid (p\<lparr>active := False\<rparr>) = is_user_admin uid p"
  by (simp add: is_user_admin_def split: option.splits)

text \<open>
  Claim C6 does not hold of the code. \<^verbatim>\<open>close_session\<close> flags the project inactive and
  broadcasts \<^verbatim>\<open>session_closed\<close>, and a later \<^verbatim>\<open>join_session\<close> is refused with
  \<^verbatim>\<open>Session not found or inactive\<close>, the state being left as it is. But a
  \<^verbatim>\<open>file_open\<close> against the closed session is still processed (the participant's
  current file is updated and \<^verbatim>\<open>user_file_change\<close> is broadcast to the room), and a
  write request of a non-admin is still queued and announced to the admin room; neither is
  answered with an error.
\<close>

theorem closed_session_still_serves:
  "close_session example_world (Some 1) ''s1'' =
     (example_world\<lparr>projects := [''s1'' \<mapsto> example_project\<lparr>active := False\<rparr>]\<rparr>,
      [emit Session_closed ''s1''], Reply 200 ''success'')
   \<and> handle_join_session
        (example_world\<lparr>projects := [''s1'' \<mapsto> example_project\<lparr>active := False\<rparr>]\<rparr>)
        ''c3'' None ''s1'' ''carol'' True (Some ''t3'') ''k2'' 2 =
      (example_world\<lparr>projects := [''s1'' \<mapsto> example_project\<lparr>active := False\<rparr>]\<rparr>,
       [emit (Error ''Session not found or inactive'') ''c3''])
   \<and> handle_file_open
       (example_world\<lparr>projects := [''s1'' \<mapsto> example_project\<lparr>active := False\<rparr>]\<rparr>)
       ''c2'' ''s1'' ''main.py'' =
     (example_world\<lparr>projects := [''s1'' \<mapsto> example_project\<lparr>active := False\<rparr>],
        active_sessions :=
          [(''s1'', \<lparr>users = [alice, bob\<lparr>current_file := Some ''main.py''\<rparr>],
                    pending_approvals = []\<rparr>)]\<rparr>,
      [emit (User_file_change ''c2'' ''main.py'') ''s1''])
   \<and> save_file
       (example_world\<lparr>projects := [''s1'' \<mapsto> example_project\<lparr>active := False\<rparr>]\<rparr>)
       None ''s1'' ''main.py'' ''x=2'' ''bob'' ''a1'' =
     Inr (example_world\<lparr>projects := [''s1'' \<mapsto> example_project\<lparr>active := False\<rparr>],
            active_sessions :=
              [(''s1'', \<lparr>users = [alice, bob],
                        pending_approvals = [Save ''a1'' ''main.py'' ''x=2'' ''bob'']\<rparr>)]\<rparr>,
          [emit (Approval_request ''a1'' ''main.py'' ''bob'') ''s1_admin''],
          Reply 200 ''pending_approval'')"
  by (simp add: close_session_def handle_join_session_def handle_file_open_def save_file_def
      example_defs eval_defs)

text \<open>
  The extent of the omission: \<^verbatim>\<open>save_file\<close>, \<^verbatim>\<open>handle_approval_response\<close>,
  \<^verbatim>\<open>handle_chat_message\<close>, \<^verbatim>\<open>handle_cursor_move\<close> and \<^verbatim>\<open>handle_file_open\<close> never
  read the \<^verbatim>\<open>active\<close> flag, so on a closed session each returns what it returns on the
  open one, the project table apart; \<^verbatim>\<open>handle_join_session\<close> is the one handler that
  refuses.
\<close>

lemma close_session_other_handlers:
  assumes "close_session w uid session_id = (w', out, Reply 200 ''success'')"
  shows "out = [emit Session_closed session_id]
   \<and> (\<exists>p. projects w session_id = Some p
          \<and> w' = w\<lparr>projects := (projects w)(session_id \<mapsto> p\<lparr>active := False\<rparr>)\<rparr>)
   \<and> handle_join_session w' rsid uid' session_id uname anon usid token draw =
        (w', [emit (Error ''Session not found or inactive'') rsid])
   \<and> save_file w' uid' session_id path content user_info token =
        map_sum id (\<lambda>(v, es, r). (v\<lparr>projects := projects w'\<rparr>, es, r))
          (save_file w uid' session_id path content user_info token)
   \<and> handle_approval_response w' rsid session_id approval_id approved =
        map_sum id (\<lambda>(v, es). (v\<lparr>projects := projects w'\<rparr>, es))
          (handle_approval_response w rsid session_id approval_id approved)
   \<and> handle_chat_message w' session_id uname given_color message now =
        (\<lambda>(v, es). (v\<lparr>projects := projects w'\<rparr>, es))
          (handle_chat_message w session_id uname given_color message now)
   \<and> handle_cursor_move w' rsid session_id position fl =
        (\<lambda>(v, es). (v\<lparr>projects := projects w'\<rparr>, es))
          (handle_cursor_move w rsid session_id position fl)
   \<and> handle_file_open w' rsid session_id file_path =
        (\<lambda>(v, es). (v\<lparr>projects := projects w'\<rparr>, es))
          (handle_file_open w rsid session_id file_path)"
proof -
  from assms obtain p where p: "projects w session_id = Some p"
    and w': "w' = w\<lparr>projects := (projects w)(session_id \<mapsto> p\<lparr>active := False\<rparr>)\<rparr>"
    and out: "out = [emit Session_closed session_id]"
    by (auto simp: close_session_def split: option.splits if_splits)
  have j: "handle_join_session w' rsid uid' session_id uname anon usid token draw =
        (w', [emit (Error ''Session not found or inactive'') rsid])"
    by (simp add: w' handle_join_session_def)
  have s: "save_file w' uid' session_id path content user_info token =
        map_sum id (\<lambda>(v, es, r). (v\<lparr>projects := projects w'\<rparr>, es, r))
          (save_file w uid' session_id path content user_info token)"
    using p by (simp add: w' save_file_def Let_def split: option.splits)
  have a: "handle_approval_response w' rsid session_id approval_id approved =
        map_sum id (\<lambda>(v, es). (v\<lparr>projects := projects w'\<rparr>, es))
          (handle_approval_response w rsid session_id approval_id approved)"
    using p by (simp add: w' handle_approval_response_def Let_def split: option.splits approval.splits)
  have c: "handle_chat_message w' session_id uname given_color message now =
        (\<lambda>(v, es). (v\<lparr>projects := projects w'\<rparr>, es))
          (handle_chat_message w session_id uname given_color message now)"
    by (simp add: w' handle_chat_message_def Let_def)
  have m: "handle_cursor_move w' rsid session_id position fl =
        (\<lambda>(v, es). (v\<lparr>projects := projects w'\<rparr>, es))
          (handle_cursor_move w rsid session_id position fl)"
    by (simp add: w' handle_cursor_move_def split: option.splits)
  have f: "handle_file_open w' rsid session_id file_path =
        (\<lambda>(v, es). (v\<lparr>projects := projects w'\<rparr>, es))
          (handle_file_open w rsid session_id file_path)"
    by (simp add: w' handle_file_open_def split: option.splits)
  from p w' out j s a c m f show ?thesis by blast
qed


section \<open>Saving files\<close>

lemma disconnect_files [simp]: "files (fst (handle_disconnect w rsid)) = files w"
  by (simp add: handle_disconnect_def split_beta)

lemma join_files [simp]:
  "files (fst (handle_join_session w rsid uid session_id uname anon usid token draw)) = files w"
  by (simp add: handle_join_session_def Let_def split: option.splits)



text \<open>
  \<^verbatim>\<open>is_safe_path\<close> compares the absolute path with the workspace path by their
  character-wise common prefix, so it also accepts a path into a sibling directory whose
  name extends the name of the workspace; an admin's save to such a path is carried out.
  The statements below are therefore in terms of the check as the code makes it.
\<close>

lemma admin_save_sibling_directory:
  "is_safe_path (cwd example_world) (workspace_path example_project) ''../s1x/evil.txt''
   \<and> save_file example_world (Some 1) ''s1'' ''../s1x/evil.txt'' ''x=1'' ''alice'' ''a0'' =
       Inr (example_world\<lparr>files := [''/srv/workspaces/s1/../s1x/evil.txt'' \<mapsto> ''x=1'']\<rparr>,
            [emit (File_saved ''../s1x/evil.txt'' ''alice'' ''x=1'' 0) ''s1''],
            Reply 200 ''success'')"
  by (simp add: save_file_def example_defs eval_defs
      is_safe_path_def abspath_def path_join_def isabs_def normpath_def)



end
